theory Spec2Isabelle
  imports Main "HOL-Library.AList"
begin

section \<open>JavaScript values, objects and the store\<close>

text \<open>
  The SDK is TypeScript: its entities are objects that are built field by field and then
  frozen, and several of the properties verified below are about exactly that (freezing,
  hiding symbol-keyed fields, assignment to a frozen object, mutation of an object that user
  code still holds).  Objects therefore live in an explicit store.  A property has the
  attributes of an ECMAScript data property; accessor properties are not used by the code
  that is modelled here.
\<close>

type_synonym ref = nat

datatype key = Name string | Index nat | Symbol string

datatype val = Undefined | Null | Bool bool | Num int | Str string | Ref ref

datatype kind = Ordinary | Function | Array | Buffer | Promise

record property =
  pvalue :: val
  enumerable :: bool
  writable :: bool
  configurable :: bool

record obj =
  props :: "(key \<times> property) list"
  extensible :: bool
  kind :: kind
  proto :: "ref option"

text \<open>
  Besides the store, the state keeps a log of the calls made into user-supplied functions
  (the function object and the arguments of each call).  The log is not program data: it
  records what the wrappers do, so that "user code is never invoked" and "not invoked a
  second time" can be stated.
\<close>

record state =
  heap :: "ref \<Rightarrow> obj"
  next_ref :: ref
  calls :: "(ref \<times> val list) list"

datatype ErrorCode = InvalidInput | AppError

text \<open>
  What a \<^verbatim>\<open>throw\<close> carries: a \<^verbatim>\<open>TypeError\<close> of the language itself, any value
  thrown by code outside this file (user code, constructors of other modules), or the
  error object built by the SDK's \<^verbatim>\<open>error(code, message, {originalError, transactionID})\<close>.
\<close>

datatype thrown =
    TypeError string
  | Thrown val
  | SdkError ErrorCode string thrown "val option"

text \<open>
  A computation runs from a state and either throws or returns, with the state it leaves.
  \<open>bindM\<close> is sequencing (a throw skips the rest), \<open>catchM\<close> is
  \<^verbatim>\<open>try { ... } catch (e) { ... }\<close>.
\<close>

type_synonym ('s, 'a) SM = "'s \<Rightarrow> (thrown + 'a) \<times> 's"

type_synonym 'a M = "(state, 'a) SM"

definition returnM :: "'a \<Rightarrow> ('s, 'a) SM" where
  "returnM x s = (Inr x, s)"

definition throwM :: "thrown \<Rightarrow> ('s, 'a) SM" where
  "throwM e s = (Inl e, s)"

definition bindM :: "('s, 'a) SM \<Rightarrow> ('a \<Rightarrow> ('s, 'b) SM) \<Rightarrow> ('s, 'b) SM" where
  "bindM m f s = (case m s of (Inl e, s') \<Rightarrow> (Inl e, s') | (Inr x, s') \<Rightarrow> f x s')"

definition thenM :: "('s, unit) SM \<Rightarrow> ('s, 'a) SM \<Rightarrow> ('s, 'a) SM" where
  "thenM m n = bindM m (\<lambda>_. n)"

definition catchM :: "('s, 'a) SM \<Rightarrow> (thrown \<Rightarrow> ('s, 'a) SM) \<Rightarrow> ('s, 'a) SM" where
  "catchM m h s = (case m s of (Inl e, s') \<Rightarrow> h e s' | (Inr x, s') \<Rightarrow> (Inr x, s'))"

fun mapM :: "('a \<Rightarrow> ('s, 'b) SM) \<Rightarrow> 'a list \<Rightarrow> ('s, 'b list) SM" where
  "mapM f [] = returnM []"
| "mapM f (x # xs) = bindM (f x) (\<lambda>y. bindM (mapM f xs) (\<lambda>ys. returnM (y # ys)))"

subsection \<open>Reading\<close>

definition is_symbol :: "key \<Rightarrow> bool" where
  "is_symbol k = (case k of Symbol _ \<Rightarrow> True | _ \<Rightarrow> False)"

definition own_prop :: "state \<Rightarrow> ref \<Rightarrow> key \<Rightarrow> property option" where
  "own_prop s r k = map_of (props (heap s r)) k"

text \<open>
  \<^verbatim>\<open>o[k]\<close> on an object: the own property, else the property of the prototype.  The
  classes of this code have no superclass, and nothing read here lives on
  \<^verbatim>\<open>Object.prototype\<close>, so the chain is followed for one step.
\<close>

definition get_ref :: "state \<Rightarrow> ref \<Rightarrow> key \<Rightarrow> val" where
  "get_ref s r k =
     (case own_prop s r k of
        Some p \<Rightarrow> pvalue p
      | None \<Rightarrow>
          (case proto (heap s r) of
             None \<Rightarrow> Undefined
           | Some c \<Rightarrow> (case own_prop s c k of Some p \<Rightarrow> pvalue p | None \<Rightarrow> Undefined)))"

text \<open>\<^verbatim>\<open>v[k]\<close> on any value: reading a property of undefined or null throws.\<close>

definition getM :: "val \<Rightarrow> key \<Rightarrow> val M" where
  "getM v k s =
     (case v of
        Undefined \<Rightarrow> (Inl (TypeError ''Cannot read properties of undefined''), s)
      | Null \<Rightarrow> (Inl (TypeError ''Cannot read properties of null''), s)
      | Ref r \<Rightarrow> (Inr (get_ref s r k), s)
      | _ \<Rightarrow> (Inr Undefined, s))"

definition truthy :: "val \<Rightarrow> bool" where
  "truthy v =
     (case v of
        Undefined \<Rightarrow> False
      | Null \<Rightarrow> False
      | Bool b \<Rightarrow> b
      | Num n \<Rightarrow> n \<noteq> 0
      | Str t \<Rightarrow> t \<noteq> []
      | Ref _ \<Rightarrow> True)"

datatype typeof_result = T_undefined | T_object | T_boolean | T_number | T_string | T_function

definition typeof :: "state \<Rightarrow> val \<Rightarrow> typeof_result" where
  "typeof s v =
     (case v of
        Undefined \<Rightarrow> T_undefined
      | Null \<Rightarrow> T_object
      | Bool _ \<Rightarrow> T_boolean
      | Num _ \<Rightarrow> T_number
      | Str _ \<Rightarrow> T_string
      | Ref r \<Rightarrow> (if kind (heap s r) = Function then T_function else T_object))"

definition instanceof_Buffer :: "state \<Rightarrow> val \<Rightarrow> bool" where
  "instanceof_Buffer s v = (case v of Ref r \<Rightarrow> kind (heap s r) = Buffer | _ \<Rightarrow> False)"

subsection \<open>Object.freeze, Object.isFrozen, Object.defineProperty\<close>

definition frozen_prop :: "property \<Rightarrow> property" where
  "frozen_prop p = p\<lparr>writable := False, configurable := False\<rparr>"

definition freeze_obj :: "obj \<Rightarrow> obj" where
  "freeze_obj ob = ob\<lparr>props := map (\<lambda>(k, p). (k, frozen_prop p)) (props ob), extensible := False\<rparr>"

definition is_index :: "key \<Rightarrow> bool" where
  "is_index k = (case k of Index _ \<Rightarrow> True | _ \<Rightarrow> False)"

definition has_elements :: "obj \<Rightarrow> bool" where
  "has_elements ob = (\<exists>k \<in> set (map fst (props ob)). is_index k)"

text \<open>
  \<^verbatim>\<open>Object.freeze(v)\<close>.  A primitive is returned as it is.  An object is made
  non-extensible and each own property non-writable and non-configurable.  A
  \<^verbatim>\<open>Buffer\<close> is a typed array: its elements cannot be made read-only, so freezing one
  that has elements throws after the extension has been prevented (ECMAScript
  SetIntegrityLevel); this is the case \<^verbatim>\<open>hideAndFreeze\<close> steps around.
\<close>

definition Object_freeze :: "val \<Rightarrow> unit M" where
  "Object_freeze v s =
     (case v of
        Ref r \<Rightarrow>
          (if kind (heap s r) = Buffer \<and> has_elements (heap s r)
           then (Inl (TypeError ''Cannot freeze array buffer views with elements''),
                 s\<lparr>heap := (heap s)(r := (heap s r)\<lparr>extensible := False\<rparr>)\<rparr>)
           else (Inr (), s\<lparr>heap := (heap s)(r := freeze_obj (heap s r))\<rparr>))
      | _ \<Rightarrow> (Inr (), s))"

definition isFrozen :: "state \<Rightarrow> ref \<Rightarrow> bool" where
  "isFrozen s r =
     (\<not> extensible (heap s r) \<and>
      (\<forall>(k, p) \<in> set (props (heap s r)). \<not> writable p \<and> \<not> configurable p))"

text \<open>\<^verbatim>\<open>Object.isFrozen(v)\<close>: a primitive counts as frozen.\<close>

definition Object_isFrozen :: "state \<Rightarrow> val \<Rightarrow> bool" where
  "Object_isFrozen s v = (case v of Ref r \<Rightarrow> isFrozen s r | _ \<Rightarrow> True)"

text \<open>
  \<^verbatim>\<open>Object.defineProperty(obj, k, { enumerable: b })\<close>, the one form used.  On an
  existing property only the enumerable attribute is asked to change: that is refused
  (TypeError) when the property is non-configurable and the attribute differs.  On a
  missing key a property is created with the defaults (undefined, all attributes false
  but the given one), unless the object is non-extensible.
\<close>

definition defineProperty_enumerable :: "ref \<Rightarrow> key \<Rightarrow> bool \<Rightarrow> unit M" where
  "defineProperty_enumerable r k b s =
     (case own_prop s r k of
        Some p \<Rightarrow>
          (if \<not> configurable p \<and> enumerable p \<noteq> b
           then (Inl (TypeError ''Cannot redefine property''), s)
           else (Inr (), s\<lparr>heap := (heap s)(r := (heap s r)
                  \<lparr>props := AList.map_entry k (\<lambda>p. p\<lparr>enumerable := b\<rparr>) (props (heap s r))\<rparr>)\<rparr>))
      | None \<Rightarrow>
          (if extensible (heap s r)
           then (Inr (), s\<lparr>heap := (heap s)(r := (heap s r)
                  \<lparr>props := props (heap s r) @
                     [(k, \<lparr>pvalue = Undefined, enumerable = b, writable = False,
                           configurable = False\<rparr>)]\<rparr>)\<rparr>)
           else (Inl (TypeError ''Cannot define property, object is not extensible''), s)))"

subsection \<open>Assignment and delete\<close>

definition data_property :: "val \<Rightarrow> property" where
  "data_property v = \<lparr>pvalue = v, enumerable = True, writable = True, configurable = True\<rparr>"

definition add_property :: "ref \<Rightarrow> key \<Rightarrow> val \<Rightarrow> unit M" where
  "add_property r k v s =
     (if extensible (heap s r)
      then (Inr (), s\<lparr>heap := (heap s)(r := (heap s r)
             \<lparr>props := props (heap s r) @ [(k, data_property v)]\<rparr>)\<rparr>)
      else (Inl (TypeError ''Cannot add property, object is not extensible''), s))"

text \<open>
  \<^verbatim>\<open>target[k] = v\<close>.  Modules and class bodies are strict code, so a refused
  assignment throws.  An own property is overwritten when it is writable; a missing one is
  created when the object is extensible and the prototype does not hold a read-only
  property of that name.
\<close>

definition assignM :: "val \<Rightarrow> key \<Rightarrow> val \<Rightarrow> unit M" where
  "assignM target k v s =
     (case target of
        Undefined \<Rightarrow> (Inl (TypeError ''Cannot set properties of undefined''), s)
      | Null \<Rightarrow> (Inl (TypeError ''Cannot set properties of null''), s)
      | Ref r \<Rightarrow>
          (case own_prop s r k of
             Some p \<Rightarrow>
               (if writable p
                then (Inr (), s\<lparr>heap := (heap s)(r := (heap s r)
                       \<lparr>props := AList.map_entry k (\<lambda>p. p\<lparr>pvalue := v\<rparr>) (props (heap s r))\<rparr>)\<rparr>)
                else (Inl (TypeError ''Cannot assign to read only property''), s))
           | None \<Rightarrow>
               (case proto (heap s r) of
                  None \<Rightarrow> add_property r k v s
                | Some c \<Rightarrow>
                    (case own_prop s c k of
                       None \<Rightarrow> add_property r k v s
                     | Some p \<Rightarrow>
                         (if writable p then add_property r k v s
                          else (Inl (TypeError ''Cannot assign to read only property''), s)))))
      | _ \<Rightarrow> (Inl (TypeError ''Cannot create property on a primitive value''), s))"

text \<open>\<^verbatim>\<open>delete target[k]\<close> in strict code.\<close>

definition deleteM :: "val \<Rightarrow> key \<Rightarrow> unit M" where
  "deleteM target k s =
     (case target of
        Undefined \<Rightarrow> (Inl (TypeError ''Cannot convert undefined or null to object''), s)
      | Null \<Rightarrow> (Inl (TypeError ''Cannot convert undefined or null to object''), s)
      | Ref r \<Rightarrow>
          (case own_prop s r k of
             None \<Rightarrow> (Inr (), s)
           | Some p \<Rightarrow>
               (if configurable p
                then (Inr (), s\<lparr>heap := (heap s)(r := (heap s r)
                       \<lparr>props := AList.delete k (props (heap s r))\<rparr>)\<rparr>)
                else (Inl (TypeError ''Cannot delete property''), s)))
      | _ \<Rightarrow> (Inr (), s))"

section \<open>hideAndFreeze\<close>

text \<open>\<^verbatim>\<open>Object.entries(obj)\<close>: the own enumerable string-keyed properties, with their values.\<close>

definition Object_entries :: "state \<Rightarrow> ref \<Rightarrow> (key \<times> val) list" where
  "Object_entries s r =
     map (\<lambda>(k, p). (k, pvalue p))
       (filter (\<lambda>(k, p). \<not> is_symbol k \<and> enumerable p) (props (heap s r)))"

definition Object_getOwnPropertySymbols :: "state \<Rightarrow> ref \<Rightarrow> key list" where
  "Object_getOwnPropertySymbols s r = filter is_symbol (map fst (props (heap s r)))"

text \<open>The first loop of \<^verbatim>\<open>hideAndFreeze\<close>: freeze all object/function fields.\<close>

fun freeze_fields :: "key list \<Rightarrow> (key \<times> val) list \<Rightarrow> unit M" where
  "freeze_fields omit [] s = returnM () s"
| "freeze_fields omit ((key, v) # rest) s =
     (if key \<in> set omit then freeze_fields omit rest s
      else if typeof s v = T_object \<or> typeof s v = T_function
      then (if \<not> instanceof_Buffer s v
            then bindM (Object_freeze v) (\<lambda>_. freeze_fields omit rest) s
            else freeze_fields omit rest s)
      else freeze_fields omit rest s)"

text \<open>The second loop: make the symbol fields non-enumerable and freeze their values.\<close>

fun hide_symbols :: "ref \<Rightarrow> key list \<Rightarrow> unit M" where
  "hide_symbols obj [] = returnM ()"
| "hide_symbols obj (symbol # rest) =
     bindM (defineProperty_enumerable obj symbol False) (\<lambda>_.
     bindM (getM (Ref obj) symbol) (\<lambda>v.
     bindM (Object_freeze v) (\<lambda>_.
     hide_symbols obj rest)))"

definition hideAndFreeze :: "ref \<Rightarrow> key list \<Rightarrow> unit M" where
  "hideAndFreeze obj omit =
     (\<lambda>s. bindM (freeze_fields omit (Object_entries s obj)) (\<lambda>_.
          (\<lambda>s1. bindM (hide_symbols obj (Object_getOwnPropertySymbols s1 obj)) (\<lambda>_.
                Object_freeze (Ref obj)) s1)) s)"


section \<open>Code outside this file\<close>

text \<open>
  The wrappers and constructors below call into modules whose source is not part of the
  files at hand: the constructors of the request and confirmation entities, \<^verbatim>\<open>URL\<close>,
  \<^verbatim>\<open>Localization\<close>, the \<^verbatim>\<open>assert\<close> helpers, the reference registry of the
  \<^verbatim>\<open>App\<close>, and the user-supplied functions themselves.  They are parameters.  Each may
  read and change the store and may throw.
\<close>

text \<open>
  What calling a user-supplied function gives: it returns a value, throws, or returns a
  promise that is later fulfilled or rejected (the method types are of the form
  \<^verbatim>\<open>(...) => T | Promise<T>\<close>).
\<close>

datatype outcome = Returns val | Throws thrown | Resolves val | Rejects thrown

record externals =
  Transaction_new :: "val \<Rightarrow> ref M"
  PickupRequest_new :: "val \<Rightarrow> val \<Rightarrow> ref M"
  PickupCancellation_new :: "val \<Rightarrow> val \<Rightarrow> ref M"
  LabelSpec_new :: "val \<Rightarrow> val \<Rightarrow> ref M"
  RateCriteria_new :: "val \<Rightarrow> val \<Rightarrow> ref M"
  TrackingCriteria_new :: "val \<Rightarrow> val \<Rightarrow> ref M"
  PickupConfirmation_new :: "val \<Rightarrow> ref M"
  PickupCancellationConfirmation_new :: "val \<Rightarrow> ref M"
  LabelConfirmation_new :: "val \<Rightarrow> ref M"
  RateQuote_new :: "val \<Rightarrow> val \<Rightarrow> ref M"
  URL_new :: "val \<Rightarrow> ref M"
  DeliveryService_new :: "val \<Rightarrow> val \<Rightarrow> ref M"
  PickupService_new :: "val \<Rightarrow> val \<Rightarrow> ref M"
  Localization_new :: "val \<Rightarrow> ref M"
  references_add :: "val \<Rightarrow> val \<Rightarrow> unit M"
  Carrier_prototype :: ref
  apply_fn :: "ref \<Rightarrow> val list \<Rightarrow> state \<Rightarrow> outcome \<times> state"
  assert :: "string \<Rightarrow> string \<Rightarrow> val \<Rightarrow> val M"
  Carrier_new :: "val \<Rightarrow> ref M"
  Packaging_new :: "val \<Rightarrow> ref M"
  DeliveryConfirmation_new :: "val \<Rightarrow> ref M"
  DeliveryService_prototype :: ref

text \<open>Running code from outside: it cannot touch the call log.\<close>

definition ext :: "'a M \<Rightarrow> 'a M" where
  "ext m s = (case m s of (res, s') \<Rightarrow> (res, s'\<lparr>calls := calls s\<rparr>))"

definition allocM :: "obj \<Rightarrow> ref M" where
  "allocM ob s =
     (Inr (next_ref s), s\<lparr>heap := (heap s)(next_ref s := ob), next_ref := Suc (next_ref s)\<rparr>)"

definition object_literal :: "(key \<times> val) list \<Rightarrow> obj" where
  "object_literal kvs =
     \<lparr>props = map (\<lambda>(k, v). (k, data_property v)) kvs, extensible = True, kind = Ordinary,
      proto = None\<rparr>"

definition array_literal :: "val list \<Rightarrow> obj" where
  "array_literal vs =
     \<lparr>props = map (\<lambda>(i, v). (Index i, data_property v)) (zip [0 ..< length vs] vs),
      extensible = True, kind = Array, proto = None\<rparr>"

definition not_a_function :: thrown where
  "not_a_function = TypeError ''is not a function''"

text \<open>
  Calling the function value \<open>f\<close>.  The call is logged, then the user code runs.
  \<^verbatim>\<open>await f(...)\<close> gives the returned or fulfilled value, and throws what the function
  threw or what its promise was rejected with.
\<close>

definition call_await :: "externals \<Rightarrow> val \<Rightarrow> val list \<Rightarrow> val M" where
  "call_await env f args s =
     (case f of
        Ref r \<Rightarrow>
          (if kind (heap s r) = Function
           then (case apply_fn env r args s of
                   (oc, s') \<Rightarrow>
                     (let s'' = s'\<lparr>calls := calls s @ [(r, args)]\<rparr>
                      in case oc of
                           Returns v \<Rightarrow> (Inr v, s'')
                         | Resolves v \<Rightarrow> (Inr v, s'')
                         | Throws e \<Rightarrow> (Inl e, s'')
                         | Rejects e \<Rightarrow> (Inl e, s'')))
           else (Inl not_a_function, s))
      | _ \<Rightarrow> (Inl not_a_function, s))"

text \<open>
  The same call without \<^verbatim>\<open>await\<close>: a promise comes back as an object, whatever it
  settles to.
\<close>

definition call_sync :: "externals \<Rightarrow> val \<Rightarrow> val list \<Rightarrow> val M" where
  "call_sync env f args s =
     (case f of
        Ref r \<Rightarrow>
          (if kind (heap s r) = Function
           then (case apply_fn env r args s of
                   (oc, s') \<Rightarrow>
                     (let s'' = s'\<lparr>calls := calls s @ [(r, args)]\<rparr>
                      in case oc of
                           Returns v \<Rightarrow> (Inr v, s'')
                         | Throws e \<Rightarrow> (Inl e, s'')
                         | _ \<Rightarrow>
                            bindM (allocM \<lparr>props = [], extensible = True, kind = Promise,
                                     proto = None\<rparr>) (\<lambda>p. returnM (Ref p)) s''))
           else (Inl not_a_function, s))
      | _ \<Rightarrow> (Inl not_a_function, s))"

text \<open>The SDK's \<^verbatim>\<open>error(code, message, { originalError, transactionID })\<close>.\<close>

definition error :: "ErrorCode \<Rightarrow> string \<Rightarrow> thrown \<Rightarrow> val option \<Rightarrow> thrown" where
  "error code message originalError transactionID =
     SdkError code message originalError transactionID"

section \<open>Carrier: the wrappers around user-defined methods\<close>

definition private_sym :: key where
  "private_sym = Symbol ''private fields''"

definition internal_sym :: key where
  "internal_sym = Symbol ''internal fields''"

text \<open>
  The body of the first \<^verbatim>\<open>try\<close> of a wrapper that takes a request: the
  transaction is constructed, then the request entity.
\<close>

definition construct_inputs :: "ref M \<Rightarrow> ref M \<Rightarrow> (ref \<times> ref) M" where
  "construct_inputs new_transaction new_request =
     bindM (ext new_transaction) (\<lambda>transaction'.
     bindM (ext new_request) (\<lambda>request'.
     returnM (transaction', request')))"

text \<open>The handler of the second \<^verbatim>\<open>try\<close> of every wrapper.\<close>

definition app_error :: "string \<Rightarrow> ref \<Rightarrow> thrown \<Rightarrow> 'a M" where
  "app_error message transaction' originalError =
     bindM (getM (Ref transaction') (Name ''id'')) (\<lambda>transactionID.
     throwM (error AppError message originalError (Some transactionID)))"

text \<open>
  Lines 371--372 of \<^verbatim>\<open>requestPickup\<close>: the confirmation that the user function
  resolved with gets the shipments of the raw request when it has none, by assignment to
  the object itself, and is then handed to the \<^verbatim>\<open>PickupConfirmation\<close> constructor.
\<close>

definition requestPickup_confirm :: "externals \<Rightarrow> val \<Rightarrow> val \<Rightarrow> val M" where
  "requestPickup_confirm env request confirmation =
     bindM (getM confirmation (Name ''shipments'')) (\<lambda>shipments.
     bindM (if truthy shipments then returnM shipments
            else getM request (Name ''shipments'')) (\<lambda>shipments'.
     bindM (assignM confirmation (Name ''shipments'') shipments') (\<lambda>_.
     bindM (ext (PickupConfirmation_new env confirmation)) (\<lambda>result.
     returnM (Ref result)))))"

definition requestPickup :: "externals \<Rightarrow> ref \<Rightarrow> val \<Rightarrow> val \<Rightarrow> val M" where
  "requestPickup env this transaction request =
     bindM (getM (Ref this) private_sym) (\<lambda>private.
     bindM (getM private (Name ''app'')) (\<lambda>app.
     bindM (getM private (Name ''requestPickup'')) (\<lambda>requestPickup.
     bindM (catchM
              (construct_inputs (Transaction_new env transaction)
                 (PickupRequest_new env request app))
              (\<lambda>originalError. throwM
                 (error InvalidInput ''Invalid input to the requestPickup method.''
                    originalError None)))
       (\<lambda>(transaction', request').
     catchM
       (bindM (call_await env requestPickup [Ref transaction', Ref request'])
          (requestPickup_confirm env request))
       (app_error ''Error in requestPickup method.'' transaction')))))"

text \<open>
  Lines 398--399 of \<^verbatim>\<open>cancelPickup\<close>: a user function that resolved with nothing
  counts as a successful cancellation.
\<close>

definition cancelPickup_confirm :: "externals \<Rightarrow> val \<Rightarrow> val M" where
  "cancelPickup_confirm env confirmation =
     bindM (if truthy confirmation then returnM confirmation
            else bindM (allocM (object_literal [(Name ''successful'', Bool True)]))
                   (\<lambda>r. returnM (Ref r))) (\<lambda>confirmation'.
     bindM (ext (PickupCancellationConfirmation_new env confirmation')) (\<lambda>result.
     returnM (Ref result)))"

definition cancelPickup :: "externals \<Rightarrow> ref \<Rightarrow> val \<Rightarrow> val \<Rightarrow> val M" where
  "cancelPickup env this transaction cancellation =
     bindM (getM (Ref this) private_sym) (\<lambda>private.
     bindM (getM private (Name ''app'')) (\<lambda>app.
     bindM (getM private (Name ''cancelPickup'')) (\<lambda>cancelPickup.
     bindM (catchM
              (construct_inputs (Transaction_new env transaction)
                 (PickupCancellation_new env cancellation app))
              (\<lambda>originalError. throwM
                 (error InvalidInput ''Invalid input to the cancelPickup method.''
                    originalError None)))
       (\<lambda>(transaction', cancellation').
     catchM
       (bindM (call_await env cancelPickup [Ref transaction', Ref cancellation'])
          (cancelPickup_confirm env))
       (app_error ''Error in cancelPickup method.'' transaction')))))"

definition createLabel_confirm :: "externals \<Rightarrow> val \<Rightarrow> val M" where
  "createLabel_confirm env confirmation =
     bindM (ext (LabelConfirmation_new env confirmation)) (\<lambda>result. returnM (Ref result))"

definition createLabel :: "externals \<Rightarrow> ref \<Rightarrow> val \<Rightarrow> val \<Rightarrow> val M" where
  "createLabel env this transaction label =
     bindM (getM (Ref this) private_sym) (\<lambda>private.
     bindM (getM private (Name ''app'')) (\<lambda>app.
     bindM (getM private (Name ''createLabel'')) (\<lambda>createLabel.
     bindM (catchM
              (construct_inputs (Transaction_new env transaction)
                 (LabelSpec_new env label app))
              (\<lambda>originalError. throwM
                 (error InvalidInput ''Invalid input to the createLabel method.''
                    originalError None)))
       (\<lambda>(transaction', label').
     catchM
       (bindM (call_await env createLabel [Ref transaction', Ref label'])
          (createLabel_confirm env))
       (app_error ''Error in createLabel method.'' transaction')))))"

definition voidLabel :: "externals \<Rightarrow> ref \<Rightarrow> val \<Rightarrow> val M" where
  "voidLabel env this transaction =
     bindM (catchM
              (ext (Transaction_new env transaction))
              (\<lambda>originalError. throwM
                 (error InvalidInput ''Invalid input to the voidLabel method.''
                    originalError None)))
       (\<lambda>transaction'.
     catchM
       (returnM Undefined)
       (app_error ''Error in voidLabel method.'' transaction'))"

definition getRates_quote :: "externals \<Rightarrow> val \<Rightarrow> val \<Rightarrow> val M" where
  "getRates_quote env app quote =
     bindM (ext (RateQuote_new env quote app)) (\<lambda>result. returnM (Ref result))"

definition getRates :: "externals \<Rightarrow> ref \<Rightarrow> val \<Rightarrow> val \<Rightarrow> val M" where
  "getRates env this transaction criteria =
     bindM (getM (Ref this) private_sym) (\<lambda>private.
     bindM (getM private (Name ''app'')) (\<lambda>app.
     bindM (getM private (Name ''getRates'')) (\<lambda>getRates.
     bindM (catchM
              (construct_inputs (Transaction_new env transaction)
                 (RateCriteria_new env criteria app))
              (\<lambda>originalError. throwM
                 (error InvalidInput ''Invalid input to the getRates method.''
                    originalError None)))
       (\<lambda>(transaction', criteria').
     catchM
       (bindM (call_await env getRates [Ref transaction', Ref criteria'])
          (getRates_quote env app))
       (app_error ''Error in getRates method.'' transaction')))))"

text \<open>Line 497: \<^verbatim>\<open>url ? new URL(url) : undefined\<close>.\<close>

definition getTrackingURL_url :: "externals \<Rightarrow> val \<Rightarrow> val M" where
  "getTrackingURL_url env url =
     (if truthy url
      then bindM (ext (URL_new env url)) (\<lambda>result. returnM (Ref result))
      else returnM Undefined)"

definition getTrackingURL :: "externals \<Rightarrow> ref \<Rightarrow> val \<Rightarrow> val \<Rightarrow> val M" where
  "getTrackingURL env this transaction criteria =
     bindM (getM (Ref this) private_sym) (\<lambda>private.
     bindM (getM private (Name ''app'')) (\<lambda>app.
     bindM (getM private (Name ''getTrackingURL'')) (\<lambda>getTrackingURL.
     bindM (catchM
              (construct_inputs (Transaction_new env transaction)
                 (TrackingCriteria_new env criteria app))
              (\<lambda>originalError. throwM
                 (error InvalidInput ''Invalid input to the getTrackingURL method.''
                    originalError None)))
       (\<lambda>(transaction', criteria').
     catchM
       (bindM (call_sync env getTrackingURL [Ref transaction', Ref criteria'])
          (getTrackingURL_url env))
       (app_error ''Error in getTrackingURL method.'' transaction')))))"

definition track :: "externals \<Rightarrow> ref \<Rightarrow> val \<Rightarrow> val M" where
  "track env this transaction =
     bindM (catchM
              (ext (Transaction_new env transaction))
              (\<lambda>originalError. throwM
                 (error InvalidInput ''Invalid input to the track method.''
                    originalError None)))
       (\<lambda>transaction'.
     catchM
       (returnM Undefined)
       (app_error ''Error in track method.'' transaction'))"

definition createManifest :: "externals \<Rightarrow> ref \<Rightarrow> val \<Rightarrow> val M" where
  "createManifest env this transaction =
     bindM (catchM
              (ext (Transaction_new env transaction))
              (\<lambda>originalError. throwM
                 (error InvalidInput ''Invalid input to the createManifest method.''
                    originalError None)))
       (\<lambda>transaction'.
     catchM
       (returnM Undefined)
       (app_error ''Error in createManifest method.'' transaction'))"

section \<open>Carrier: the constructor\<close>

definition elements :: "state \<Rightarrow> ref \<Rightarrow> val list" where
  "elements s a = map (\<lambda>(k, p). pvalue p) (filter (\<lambda>(k, p). is_index k) (props (heap s a)))"

text \<open>\<^verbatim>\<open>arr.map((x) => new C(x, ...))\<close>: a new array of the constructed objects.\<close>

definition array_map :: "val \<Rightarrow> (val \<Rightarrow> ref M) \<Rightarrow> val M" where
  "array_map arr f s =
     (case arr of
        Undefined \<Rightarrow> (Inl (TypeError ''Cannot read properties of undefined''), s)
      | Null \<Rightarrow> (Inl (TypeError ''Cannot read properties of null''), s)
      | Ref a \<Rightarrow>
          (if kind (heap s a) = Array
           then bindM (mapM (\<lambda>x. bindM (f x) (\<lambda>r. returnM (Ref r))) (elements s a)) (\<lambda>ys.
                bindM (allocM (array_literal ys)) (\<lambda>r. returnM (Ref r))) s
           else (Inl not_a_function, s))
      | _ \<Rightarrow> (Inl not_a_function, s))"

text \<open>\<^verbatim>\<open>this.k = e\<close>: evaluate \<open>e\<close>, then assign.\<close>

definition set_field :: "ref \<Rightarrow> string \<Rightarrow> val M \<Rightarrow> unit M" where
  "set_field this k e = bindM e (\<lambda>v. assignM (Ref this) (Name k) v)"

text \<open>
  The user-defined methods of a carrier, in the order of the private fields (lines
  302--309 of the constructor, one line for each, alike but for the name).
\<close>

definition method_names :: "string list" where
  "method_names =
     [''requestPickup'', ''cancelPickup'', ''createLabel'', ''voidLabel'', ''getRates'',
      ''getTrackingURL'', ''track'', ''createManifest'']"

text \<open>
  \<^verbatim>\<open>pojo.m ? pojo.m : (this.m = undefined)\<close>: a user-defined method is kept; for one
  that is not implemented the class method is set to undefined on the instance.
\<close>

definition method_or_undefined :: "ref \<Rightarrow> val \<Rightarrow> string \<Rightarrow> val M" where
  "method_or_undefined this pojo m =
     bindM (getM pojo (Name m)) (\<lambda>f.
     if truthy f then getM pojo (Name m)
     else bindM (assignM (Ref this) (Name m) Undefined) (\<lambda>_. returnM Undefined))"

definition or_empty_object :: "val \<Rightarrow> val M" where
  "or_empty_object v =
     (if truthy v then returnM v
      else bindM (allocM (object_literal [])) (\<lambda>r. returnM (Ref r)))"

definition Carrier_constructor :: "externals \<Rightarrow> val \<Rightarrow> val \<Rightarrow> ref M" where
  "Carrier_constructor env pojo app =
     bindM (allocM \<lparr>props = [], extensible = True, kind = Ordinary,
              proto = Some (Carrier_prototype env)\<rparr>) (\<lambda>this.
     thenM (set_field this ''id'' (getM pojo (Name ''id'')))
    (thenM (set_field this ''name'' (getM pojo (Name ''name'')))
    (thenM (set_field this ''description''
              (bindM (getM pojo (Name ''description'')) (\<lambda>d.
               returnM (if truthy d then d else Str []))))
    (thenM (set_field this ''websiteURL''
              (bindM (getM pojo (Name ''websiteURL'')) (\<lambda>w.
               bindM (ext (URL_new env w)) (\<lambda>u. returnM (Ref u)))))
    (thenM (set_field this ''logo'' (getM pojo (Name ''logo'')))
    (thenM (set_field this ''deliveryServices''
              (bindM (getM pojo (Name ''deliveryServices'')) (\<lambda>ds.
               array_map ds (\<lambda>svc. ext (DeliveryService_new env svc app)))))
    (thenM (set_field this ''pickupServices''
              (bindM (getM pojo (Name ''pickupServices'')) (\<lambda>ps.
               if truthy ps
               then bindM (getM pojo (Name ''pickupServices'')) (\<lambda>ps'.
                    array_map ps' (\<lambda>svc. ext (PickupService_new env svc app)))
               else bindM (allocM (array_literal [])) (\<lambda>r. returnM (Ref r)))))
    (bindM (bindM (getM pojo (Name ''localization'')) (\<lambda>l.
            bindM (or_empty_object l) (\<lambda>l'.
            bindM (ext (Localization_new env l')) (\<lambda>r. returnM (Ref r))))) (\<lambda>localization.
     bindM (mapM (method_or_undefined this pojo) method_names) (\<lambda>methods.
     bindM (allocM (object_literal
              ([(Name ''app'', app), (Name ''localization'', localization)] @
               zip (map Name method_names) methods))) (\<lambda>private.
     thenM (assignM (Ref this) private_sym (Ref private))
    (thenM (hideAndFreeze this [])
    (thenM (ext (references_add env app (Ref this)))
    (returnM this))))))))))))))"

section \<open>DeliveryService: the constructor\<close>

text \<open>
  \<^verbatim>\<open>assert.<helper>(value, ..., label, default?)\<close> is the parameter \<open>assert\<close>, given
  the helper's name and the label; it returns the checked (or defaulted) value or throws.
\<close>

definition freeze_field :: "ref \<Rightarrow> string \<Rightarrow> unit M" where
  "freeze_field this k = bindM (getM (Ref this) (Name k)) Object_freeze"

text \<open>Lines 166--173: prevent modifications after validation.\<close>

definition DeliveryService_freeze :: "ref \<Rightarrow> unit M" where
  "DeliveryService_freeze this =
     thenM (Object_freeze (Ref this))
    (thenM (freeze_field this ''originCountries'')
    (thenM (freeze_field this ''destinationCountries'')
    (thenM (freeze_field this ''packaging'')
    (thenM (freeze_field this ''deliveryConfirmations'')
    (thenM (freeze_field this ''labelFormats'')
    (freeze_field this ''labelSizes''))))))"

definition DeliveryService_constructor :: "externals \<Rightarrow> val \<Rightarrow> ref M" where
  "DeliveryService_constructor env config =
     bindM (allocM \<lparr>props = [], extensible = True, kind = Ordinary,
              proto = Some (DeliveryService_prototype env)\<rparr>) (\<lambda>this.
     thenM (bindM (ext (assert env ''type.object'' ''delivery service'' config)) (\<lambda>_. returnM ()))
    (thenM (set_field this ''id''
              (bindM (getM config (Name ''id''))
                 (\<lambda>v. ext (assert env ''string.uuid'' ''delivery service ID'' v))))
    (thenM (set_field this ''name''
              (bindM (getM config (Name ''name''))
                 (\<lambda>v. ext (assert env ''string.nonWhitespace'' ''delivery service name'' v))))
    (thenM (set_field this ''description''
              (bindM (getM config (Name ''description''))
                 (\<lambda>v. ext (assert env ''string'' ''delivery service description'' v))))
    (thenM (set_field this ''class''
              (bindM (getM config (Name ''class''))
                 (\<lambda>v. ext (assert env ''string.enum'' ''delivery service class'' v))))
    (thenM (set_field this ''grade''
              (bindM (getM config (Name ''grade''))
                 (\<lambda>v. ext (assert env ''string.enum'' ''delivery service grade'' v))))
    (thenM (set_field this ''originCountries''
              (bindM (getM config (Name ''originCountries''))
                 (\<lambda>v. ext (assert env ''array.ofEnum'' ''originCountries'' v))))
    (thenM (set_field this ''destinationCountries''
              (bindM (getM config (Name ''destinationCountries''))
                 (\<lambda>v. ext (assert env ''array.ofEnum'' ''destinationCountries'' v))))
    (thenM (set_field this ''carrier''
              (bindM (getM config (Name ''carrier''))
                 (\<lambda>v. bindM (ext (Carrier_new env v)) (\<lambda>r. returnM (Ref r)))))
    (thenM (set_field this ''packaging''
              (bindM (getM config (Name ''packaging'')) (\<lambda>v.
               bindM (ext (assert env ''array.nonEmpty'' ''packaging'' v)) (\<lambda>arr.
               array_map arr (\<lambda>svc. ext (Packaging_new env svc))))))
    (thenM (set_field this ''deliveryConfirmations''
              (bindM (getM config (Name ''deliveryConfirmations'')) (\<lambda>v.
               bindM (ext (assert env ''array'' ''deliveryConfirmations'' v)) (\<lambda>arr.
               array_map arr (\<lambda>svc. ext (DeliveryConfirmation_new env svc))))))
    (thenM (set_field this ''labelFormats''
              (bindM (getM config (Name ''labelFormats''))
                 (\<lambda>v. ext (assert env ''array.ofEnum'' ''labelFormats'' v))))
    (thenM (set_field this ''labelSizes''
              (bindM (getM config (Name ''labelSizes''))
                 (\<lambda>v. ext (assert env ''array.ofEnum'' ''labelSizes'' v))))
    (thenM (set_field this ''isReturnService''
              (bindM (getM config (Name ''isReturnService''))
                 (\<lambda>v. ext (assert env ''type.boolean'' ''isReturnService flag'' v))))
    (thenM (set_field this ''allowsMultiplePackages''
              (bindM (getM config (Name ''allowsMultiplePackages''))
                 (\<lambda>v. ext (assert env ''type.boolean'' ''allowsMultiplePackages flag'' v))))
    (thenM (set_field this ''hasTracking''
              (bindM (getM config (Name ''hasTracking''))
                 (\<lambda>v. ext (assert env ''type.boolean'' ''hasTracking flag'' v))))
    (thenM (set_field this ''requiresManifest''
              (bindM (getM config (Name ''requiresManifest'')) (\<lambda>m.
               if truthy m
               then bindM (getM config (Name ''requiresManifest''))
                      (\<lambda>v. ext (assert env ''string.enum'' ''requiresManifest value'' v))
               else returnM (Bool False))))
    (thenM (DeliveryService_freeze this)
    (returnM this)))))))))))))))))))"

section \<open>PickupCancellationConfirmation\<close>

text \<open>
  Modelled from the spec: the class \<^verbatim>\<open>PickupCancellationConfirmation\<close> is not among
  the source files (only the interface \<^verbatim>\<open>PickupCancellationConfirmationConfig\<close> is).
  Following the spec's entity normalizer ("given a validated raw object, produces the
  corresponding immutable entity") and schema validator (required fields and type
  constraints), the constructor requires the boolean \<^verbatim>\<open>successful\<close>, copies
  \<^verbatim>\<open>successful\<close>, \<^verbatim>\<open>cancellationID\<close>, \<^verbatim>\<open>notes\<close> and \<^verbatim>\<open>customData\<close>
  of the raw object, and freezes the entity.
\<close>

definition PickupCancellationConfirmation_model :: "val \<Rightarrow> ref M" where
  "PickupCancellationConfirmation_model pojo =
     bindM (getM pojo (Name ''successful'')) (\<lambda>successful.
     (case successful of
        Bool _ \<Rightarrow>
          bindM (allocM \<lparr>props = [], extensible = True, kind = Ordinary, proto = None\<rparr>) (\<lambda>this.
          thenM (set_field this ''successful'' (returnM successful))
         (thenM (set_field this ''cancellationID'' (getM pojo (Name ''cancellationID'')))
         (thenM (set_field this ''notes'' (getM pojo (Name ''notes'')))
         (thenM (set_field this ''customData'' (getM pojo (Name ''customData'')))
         (thenM (hideAndFreeze this [])
         (returnM this))))))
      | _ \<Rightarrow> throwM (Thrown (Str ''successful must be a boolean''))))"

section \<open>Entities as values\<close>

text \<open>
  The store tells which object is which and what may still be changed.  Two properties
  are about the field values of an entity only: what the \<^verbatim>\<open>serviceArea\<close> getter of a
  delivery service computes from its packaging, and whether a carrier that is serialized
  and constructed again has the same field values.  For these an entity is the record of
  its fields.
\<close>

subsection \<open>DeliveryService.serviceArea\<close>

text \<open>The members of the enumeration \<^verbatim>\<open>ServiceArea\<close> that the source names.\<close>

datatype ServiceArea = Regional | Domestic | Worldwide

text \<open>Of a \<^verbatim>\<open>Packaging\<close> the getters read \<^verbatim>\<open>serviceArea\<close> and \<^verbatim>\<open>isConsolidator\<close>.\<close>

record Packaging =
  serviceArea :: ServiceArea
  isConsolidator :: bool

record ('cls, 'grade, 'country, 'carrier, 'conf, 'fmt, 'size, 'manifest) DeliveryService =
  ds_id :: string
  ds_name :: string
  ds_description :: string
  ds_class :: 'cls
  ds_grade :: 'grade
  originCountries :: "'country list"
  destinationCountries :: "'country list"
  carrier :: 'carrier
  packaging :: "Packaging list"
  deliveryConfirmations :: "'conf list"
  labelFormats :: "'fmt list"
  labelSizes :: "'size list"
  isReturnService :: bool
  allowsMultiplePackages :: bool
  hasTracking :: bool
  requiresManifest :: "'manifest option"

text \<open>
  The loop of the getter, from the packaging still to visit and the current
  \<^verbatim>\<open>maxArea\<close>: \<^verbatim>\<open>Worldwide\<close> returns at once, \<^verbatim>\<open>Domestic\<close> replaces
  \<^verbatim>\<open>maxArea\<close>.
\<close>

fun serviceArea_loop :: "Packaging list \<Rightarrow> ServiceArea \<Rightarrow> ServiceArea" where
  "serviceArea_loop [] maxArea = maxArea"
| "serviceArea_loop (p # rest) maxArea =
     (if serviceArea p = Worldwide then Worldwide
      else if serviceArea p = Domestic then serviceArea_loop rest Domestic
      else serviceArea_loop rest maxArea)"

definition DeliveryService_serviceArea ::
  "('cls, 'grade, 'country, 'carrier, 'conf, 'fmt, 'size, 'manifest) DeliveryService
     \<Rightarrow> ServiceArea" where
  "DeliveryService_serviceArea this = serviceArea_loop (packaging this) Regional"

subsection \<open>Carrier: constructor and toJSON on field values\<close>

text \<open>
  \<^verbatim>\<open>new URL(x)\<close> takes a string or a URL: the configuration gives a string, the
  serialized carrier holds the URL object itself (\<^verbatim>\<open>...this\<close>).
\<close>

datatype 'u url_source = UrlString string | UrlObject 'u

record 'f methods =
  m_requestPickup :: "'f option"
  m_cancelPickup :: "'f option"
  m_createLabel :: "'f option"
  m_voidLabel :: "'f option"
  m_getRates :: "'f option"
  m_getTrackingURL :: "'f option"
  m_track :: "'f option"
  m_createManifest :: "'f option"

record ('u, 'dp, 'pp, 'lp, 'f) CarrierPOJO =
  pojo_id :: string
  pojo_name :: string
  pojo_description :: "string option"
  pojo_websiteURL :: "'u url_source"
  pojo_logo :: string
  pojo_deliveryServices :: "'dp list"
  pojo_pickupServices :: "'pp list option"
  pojo_localization :: "'lp option"
  pojo_methods :: "'f methods"

text \<open>
  The carrier entity: its public fields, the private fields, and the names of the class
  methods that the constructor set to undefined on the instance.
\<close>

record ('u, 'd, 'p, 'l, 'f, 'a) Carrier =
  carrier_id :: string
  carrier_name :: string
  carrier_description :: string
  carrier_websiteURL :: 'u
  carrier_logo :: string
  carrier_deliveryServices :: "'d list"
  carrier_pickupServices :: "'p list"
  private_app :: 'a
  private_localization :: 'l
  private_methods :: "'f methods"
  undefined_methods :: "string list"

record localized =
  l_name :: "string option"
  l_description :: "string option"
  l_websiteURL :: "string option"

text \<open>
  The classes the carrier is built from are outside the files at hand; their constructors
  and serializers are parameters (\<open>'w\<close> is whatever state they work on).
\<close>

record ('u, 'd, 'dp, 'p, 'pp, 'l, 'lp, 'f, 'a, 'w) entity_ops =
  v_URL_new :: "'u url_source \<Rightarrow> ('w, 'u) SM"
  v_DeliveryService_new :: "'dp \<Rightarrow> 'a \<Rightarrow> ('w, 'd) SM"
  v_DeliveryService_toJSON :: "'d \<Rightarrow> string option \<Rightarrow> 'dp"
  v_PickupService_new :: "'pp \<Rightarrow> 'a \<Rightarrow> ('w, 'p) SM"
  v_PickupService_toJSON :: "'p \<Rightarrow> string option \<Rightarrow> 'pp"
  v_Localization_new :: "'lp \<Rightarrow> ('w, 'l) SM"
  v_Localization_toJSON :: "'l \<Rightarrow> 'lp"
  v_Localization_lookup :: "'l \<Rightarrow> string \<Rightarrow> localized"
  v_empty_object :: 'lp
  v_references_add :: "'a \<Rightarrow> ('u, 'd, 'p, 'l, 'f, 'a) Carrier \<Rightarrow> ('w, unit) SM"

definition unimplemented :: "'f methods \<Rightarrow> string list" where
  "unimplemented ms =
     map fst (filter (\<lambda>(m, f). f = None)
       [(''requestPickup'', m_requestPickup ms),
        (''cancelPickup'', m_cancelPickup ms),
        (''createLabel'', m_createLabel ms),
        (''voidLabel'', m_voidLabel ms),
        (''getRates'', m_getRates ms),
        (''getTrackingURL'', m_getTrackingURL ms),
        (''track'', m_track ms),
        (''createManifest'', m_createManifest ms)])"

definition new_Carrier ::
  "('u, 'd, 'dp, 'p, 'pp, 'l, 'lp, 'f, 'a, 'w) entity_ops \<Rightarrow> ('u, 'dp, 'pp, 'lp, 'f) CarrierPOJO
     \<Rightarrow> 'a \<Rightarrow> ('w, ('u, 'd, 'p, 'l, 'f, 'a) Carrier) SM" where
  "new_Carrier ops pojo app =
     bindM (v_URL_new ops (pojo_websiteURL pojo)) (\<lambda>websiteURL.
     bindM (mapM (\<lambda>svc. v_DeliveryService_new ops svc app) (pojo_deliveryServices pojo))
       (\<lambda>deliveryServices.
     bindM (case pojo_pickupServices pojo of
              Some svcs \<Rightarrow> mapM (\<lambda>svc. v_PickupService_new ops svc app) svcs
            | None \<Rightarrow> returnM []) (\<lambda>pickupServices.
     bindM (v_Localization_new ops
              (case pojo_localization pojo of Some l \<Rightarrow> l | None \<Rightarrow> v_empty_object ops))
       (\<lambda>localization.
     (let this =
        \<lparr>carrier_id = pojo_id pojo,
         carrier_name = pojo_name pojo,
         carrier_description =
           (case pojo_description pojo of
              Some d \<Rightarrow> (if d \<noteq> [] then d else [])
            | None \<Rightarrow> []),
         carrier_websiteURL = websiteURL,
         carrier_logo = pojo_logo pojo,
         carrier_deliveryServices = deliveryServices,
         carrier_pickupServices = pickupServices,
         private_app = app,
         private_localization = localization,
         private_methods = pojo_methods pojo,
         undefined_methods = unimplemented (pojo_methods pojo)\<rparr>
      in thenM (v_references_add ops app this) (returnM this))))))"

text \<open>
  \<^verbatim>\<open>toJSON(locale?)\<close>: the spread of the instance gives the public fields (the
  undefined method slots are overwritten by the private methods), then the localized
  values, if a locale is given, override.
\<close>

definition Carrier_toJSON ::
  "('u, 'd, 'dp, 'p, 'pp, 'l, 'lp, 'f, 'a, 'w) entity_ops \<Rightarrow> ('u, 'd, 'p, 'l, 'f, 'a) Carrier
     \<Rightarrow> string option \<Rightarrow> ('u, 'dp, 'pp, 'lp, 'f) CarrierPOJO" where
  "Carrier_toJSON ops this locale =
     (let localizedValues =
            (case locale of
               Some l \<Rightarrow> v_Localization_lookup ops (private_localization this) l
             | None \<Rightarrow> \<lparr>l_name = None, l_description = None, l_websiteURL = None\<rparr>)
      in \<lparr>pojo_id = carrier_id this,
          pojo_name = (case l_name localizedValues of Some n \<Rightarrow> n | None \<Rightarrow> carrier_name this),
          pojo_description =
            (case l_description localizedValues of
               Some d \<Rightarrow> Some d
             | None \<Rightarrow> Some (carrier_description this)),
          pojo_websiteURL =
            (case l_websiteURL localizedValues of
               Some w \<Rightarrow> UrlString w
             | None \<Rightarrow> UrlObject (carrier_websiteURL this)),
          pojo_logo = carrier_logo this,
          pojo_deliveryServices =
            map (\<lambda>o'. v_DeliveryService_toJSON ops o' locale) (carrier_deliveryServices this),
          pojo_pickupServices =
            Some (map (\<lambda>o'. v_PickupService_toJSON ops o' locale) (carrier_pickupServices this)),
          pojo_localization = Some (v_Localization_toJSON ops (private_localization this)),
          pojo_methods = private_methods this\<rparr>)"

section \<open>Invariants of freezing\<close>

text \<open>
  Freezing and hiding only ever take permissions away: they keep every key and value, and
  may clear \<open>writable\<close>, \<open>configurable\<close>, \<open>extensible\<close>, and the \<open>enumerable\<close>
  attribute of a symbol-keyed property.  \<open>evolves s s'\<close> says that \<open>s'\<close> comes from
  \<open>s\<close> by such steps.
\<close>

definition prop_le :: "key \<Rightarrow> property \<Rightarrow> property \<Rightarrow> bool" where
  "prop_le k p p' =
     (pvalue p' = pvalue p \<and> (writable p' \<longrightarrow> writable p) \<and>
      (configurable p' \<longrightarrow> configurable p) \<and> (enumerable p' \<longrightarrow> enumerable p) \<and>
      (\<not> is_symbol k \<longrightarrow> enumerable p' = enumerable p))"

definition entry_le :: "key \<times> property \<Rightarrow> key \<times> property \<Rightarrow> bool" where
  "entry_le e e' = (fst e' = fst e \<and> prop_le (fst e) (snd e) (snd e'))"

definition obj_le :: "obj \<Rightarrow> obj \<Rightarrow> bool" where
  "obj_le ob ob' =
     (kind ob' = kind ob \<and> proto ob' = proto ob \<and> (extensible ob' \<longrightarrow> extensible ob) \<and>
      list_all2 entry_le (props ob) (props ob'))"

definition evolves :: "state \<Rightarrow> state \<Rightarrow> bool" where
  "evolves s s' = (\<forall>r. obj_le (heap s r) (heap s' r))"

text \<open>\<open>Object.freeze\<close> does not throw on \<open>v\<close>.\<close>

definition freezable :: "state \<Rightarrow> val \<Rightarrow> bool" where
  "freezable s v =
     (case v of Ref r \<Rightarrow> \<not> (kind (heap s r) = Buffer \<and> has_elements (heap s r)) | _ \<Rightarrow> True)"

definition hidden_frozen :: "state \<Rightarrow> ref \<Rightarrow> key \<Rightarrow> bool" where
  "hidden_frozen s r k =
     (\<exists>p. own_prop s r k = Some p \<and> \<not> enumerable p \<and> Object_isFrozen s (pvalue p) \<and>
          freezable s (pvalue p))"

text \<open>
  Code from outside cannot change a frozen object either: that is the language's
  guarantee, and what is asked of the parameter that stands for such code.
\<close>

definition respects_frozen :: "'a M \<Rightarrow> bool" where
  "respects_frozen m = (\<forall>s r. isFrozen s r \<longrightarrow> heap (snd (m s)) r = heap s r)"

text \<open>A computation that makes no call into user code leaves the call log as it is.\<close>

definition keeps_calls :: "'a M \<Rightarrow> bool" where
  "keeps_calls m = (\<forall>s. calls (snd (m s)) = calls s)"

text \<open>The state after a call of \<open>f\<close> that started in \<open>s\<close> and left \<open>s'\<close>.\<close>

definition logged :: "state \<Rightarrow> ref \<Rightarrow> val list \<Rightarrow> state \<Rightarrow> state" where
  "logged s f args s' = s'\<lparr>calls := calls s @ [(f, args)]\<rparr>"

text \<open>
  The store in which \<^verbatim>\<open>{ successful: true }\<close> has just been allocated (at
  \<open>next_ref s\<close>).
\<close>

definition with_default_confirmation :: "state \<Rightarrow> state" where
  "with_default_confirmation s =
     s\<lparr>heap := (heap s)(next_ref s := object_literal [(Name ''successful'', Bool True)]),
       next_ref := Suc (next_ref s)\<rparr>"

text \<open>The object \<open>c\<close> has no field \<open>k\<close>, own or inherited.\<close>

definition lacks :: "state \<Rightarrow> ref \<Rightarrow> key \<Rightarrow> bool" where
  "lacks s c k =
     (own_prop s c k = None \<and>
      (case proto (heap s c) of None \<Rightarrow> True | Some pc \<Rightarrow> own_prop s pc k = None))"

text \<open>The store in which the object \<open>c\<close> has gained the field \<^verbatim>\<open>shipments\<close>.\<close>

definition with_shipments :: "state \<Rightarrow> ref \<Rightarrow> val \<Rightarrow> state" where
  "with_shipments s c v =
     s\<lparr>heap := (heap s)(c := (heap s c)
        \<lparr>props := props (heap s c) @ [(Name ''shipments'', data_property v)]\<rparr>)\<rparr>"

text \<open>
  What remains of \<^verbatim>\<open>requestPickup\<close> once the confirmation has its shipments: the
  \<^verbatim>\<open>PickupConfirmation\<close> is constructed from the confirmation object, inside the second
  \<^verbatim>\<open>try\<close>.
\<close>

definition construct_confirmation :: "externals \<Rightarrow> ref \<Rightarrow> ref \<Rightarrow> val M" where
  "construct_confirmation env transaction' c =
     catchM (bindM (ext (PickupConfirmation_new env (Ref c))) (\<lambda>result. returnM (Ref result)))
       (app_error ''Error in requestPickup method.'' transaction')"

text \<open>
  Every attempt to change the fields of the object \<open>r\<close> fails and changes nothing: an
  assignment (to an existing or a new field) throws a TypeError, a delete throws a
  TypeError or finds nothing to delete, and no property can be defined on a new key.
\<close>

definition rejects_changes :: "state \<Rightarrow> ref \<Rightarrow> bool" where
  "rejects_changes s r =
     ((\<forall>k v. \<exists>msg. assignM (Ref r) k v s = (Inl (TypeError msg), s)) \<and>
      (\<forall>k. snd (deleteM (Ref r) k s) = s \<and>
           (own_prop s r k \<noteq> None \<longrightarrow> (\<exists>msg. fst (deleteM (Ref r) k s) = Inl (TypeError msg)))) \<and>
      (\<forall>k b. own_prop s r k = None \<longrightarrow>
           (\<exists>msg. defineProperty_enumerable r k b s = (Inl (TypeError msg), s))))"

text \<open>
  A computation leaves the object \<open>r\<close> alone: started where \<open>r\<close> is allocated, it does
  not change \<open>r\<close> and does not give back references.
\<close>

definition leaves :: "ref \<Rightarrow> 'a M \<Rightarrow> bool" where
  "leaves r m =
     (\<forall>s. r < next_ref s \<longrightarrow>
        heap (snd (m s)) r = heap s r \<and> next_ref s \<le> next_ref (snd (m s)))"

text \<open>
  The constructors that \<^verbatim>\<open>new Carrier(pojo, app)\<close> calls before it looks at the
  methods of the configuration object \<open>p\<close> leave \<open>p\<close> alone.
\<close>

definition constructors_leave :: "externals \<Rightarrow> val \<Rightarrow> ref \<Rightarrow> bool" where
  "constructors_leave env app p =
     ((\<forall>w. leaves p (URL_new env w)) \<and>
      (\<forall>svc. leaves p (DeliveryService_new env svc app)) \<and>
      (\<forall>svc. leaves p (PickupService_new env svc app)) \<and>
      (\<forall>l. leaves p (Localization_new env l)))"

text \<open>The instance \<open>this\<close> has an own field \<open>m\<close> that holds undefined.\<close>

definition shadowed :: "state \<Rightarrow> ref \<Rightarrow> string \<Rightarrow> bool" where
  "shadowed s this m = (\<exists>p. own_prop s this (Name m) = Some p \<and> pvalue p = Undefined)"

section \<open>Concrete stores\<close>

definition empty_obj :: obj where
  "empty_obj = \<lparr>props = [], extensible = True, kind = Ordinary, proto = None\<rparr>"

text \<open>
  An object (10) with a plain field, an array-valued field (11), a Buffer-valued field
  (12) and a symbol-keyed field holding an object (13).
\<close>

definition entity_state :: state where
  "entity_state =
     \<lparr>heap = (\<lambda>_. empty_obj)
        (10 := \<lparr>props = [(Name ''name'', data_property (Str ''Fast'')),
                        (Name ''services'', data_property (Ref 11)),
                        (Name ''logo'', data_property (Ref 12)),
                        (Symbol ''private fields'', data_property (Ref 13))],
               extensible = True, kind = Ordinary, proto = None\<rparr>,
         11 := \<lparr>props = [(Index 0, data_property (Num 1))],
               extensible = True, kind = Array, proto = None\<rparr>,
         12 := \<lparr>props = [(Index 0, data_property (Num 255))],
               extensible = True, kind = Buffer, proto = None\<rparr>,
         13 := \<lparr>props = [(Name ''app'', data_property Null)],
               extensible = True, kind = Ordinary, proto = None\<rparr>),
      next_ref = 14, calls = []\<rparr>"

definition entity_frozen :: state where
  "entity_frozen = snd (hideAndFreeze 10 [] entity_state)"



subsection \<open>A carrier with user functions, and a stand-in for the code outside\<close>

text \<open>
  Object 40 is a carrier whose private fields (41) hold the app (42) and one user function
  \<open>f\<close> for every method.  60 is a transaction POJO, 62 a request POJO with a shipments
  array (63), 70 a frozen confirmation without shipments, 71 an extensible one, 72 one
  that has shipments (73).
\<close>

definition function_obj :: obj where
  "function_obj = \<lparr>props = [], extensible = True, kind = Function, proto = None\<rparr>"

definition hidden_property :: "val \<Rightarrow> property" where
  "hidden_property v = \<lparr>pvalue = v, enumerable = False, writable = False, configurable = False\<rparr>"

definition demo_state :: "ref \<Rightarrow> state" where
  "demo_state f =
     \<lparr>heap = (\<lambda>_. empty_obj)
        (40 := \<lparr>props = [(Symbol ''private fields'', hidden_property (Ref 41))],
                extensible = False, kind = Ordinary, proto = None\<rparr>,
         41 := object_literal
                 [(Name ''app'', Ref 42),
                  (Name ''requestPickup'', Ref f),
                  (Name ''cancelPickup'', Ref f),
                  (Name ''createLabel'', Ref f),
                  (Name ''getRates'', Ref f),
                  (Name ''getTrackingURL'', Ref f)],
         50 := function_obj, 51 := function_obj, 52 := function_obj, 53 := function_obj,
         54 := function_obj,
         60 := object_literal [(Name ''id'', Str ''tx-1'')],
         62 := object_literal [(Name ''shipments'', Ref 63)],
         63 := array_literal [],
         70 := freeze_obj (object_literal [(Name ''confirmationID'', Str ''c-70'')]),
         71 := object_literal [(Name ''confirmationID'', Str ''c-71'')],
         72 := object_literal [(Name ''confirmationID'', Str ''c-72''), (Name ''shipments'', Ref 73)],
         73 := array_literal []),
      next_ref = 100, calls = []\<rparr>"

text \<open>
  The stand-in constructors accept an object and reject anything else; a transaction keeps
  the \<^verbatim>\<open>id\<close> of its POJO.  Function 50 resolves with the frozen confirmation 70,
  function 51 with the extensible 71, function 52 with 72, function 53 throws, function 54
  resolves with nothing.
\<close>

definition demo_new :: "(key \<times> val) list \<Rightarrow> val \<Rightarrow> ref M" where
  "demo_new kvs v =
     (case v of
        Ref _ \<Rightarrow> allocM (freeze_obj (object_literal kvs))
      | _ \<Rightarrow> throwM (Thrown (Str ''validation failed'')))"

definition demo_URL :: "val \<Rightarrow> ref M" where
  "demo_URL v =
     (case v of
        Str t \<Rightarrow>
          (if t = [] then throwM (TypeError ''Invalid URL'')
           else allocM (object_literal [(Name ''href'', Str t)]))
      | Ref _ \<Rightarrow> allocM (object_literal [])
      | _ \<Rightarrow> throwM (TypeError ''Invalid URL''))"

definition demo_apply :: "ref \<Rightarrow> val list \<Rightarrow> state \<Rightarrow> outcome \<times> state" where
  "demo_apply f args s =
     (if f = 50 then (Resolves (Ref 70), s)
      else if f = 51 then (Resolves (Ref 71), s)
      else if f = 52 then (Returns (Ref 72), s)
      else if f = 53 then (Throws (Thrown (Str ''carrier API is down'')), s)
      else (Resolves Undefined, s))"

definition demo_env :: externals where
  "demo_env =
     \<lparr>Transaction_new = (\<lambda>pojo s. demo_new [(Name ''id'', case pojo of Ref p \<Rightarrow> get_ref s p (Name ''id'') | _ \<Rightarrow> Undefined)] pojo s),
      PickupRequest_new = (\<lambda>pojo app. demo_new [] pojo),
      PickupCancellation_new = (\<lambda>pojo app. demo_new [] pojo),
      LabelSpec_new = (\<lambda>pojo app. demo_new [] pojo),
      RateCriteria_new = (\<lambda>pojo app. demo_new [] pojo),
      TrackingCriteria_new = (\<lambda>pojo app. demo_new [] pojo),
      PickupConfirmation_new = demo_new [],
      PickupCancellationConfirmation_new = PickupCancellationConfirmation_model,
      LabelConfirmation_new = demo_new [],
      RateQuote_new = (\<lambda>pojo app. demo_new [] pojo),
      URL_new = demo_URL,
      DeliveryService_new = (\<lambda>pojo app. demo_new [] pojo),
      PickupService_new = (\<lambda>pojo app. demo_new [] pojo),
      Localization_new = demo_new [],
      references_add = (\<lambda>app this. returnM ()),
      Carrier_prototype = 45,
      apply_fn = demo_apply,
      assert = (\<lambda>helper label v. returnM v),
      Carrier_new = demo_new [],
      Packaging_new = demo_new [],
      DeliveryConfirmation_new = demo_new [],
      DeliveryService_prototype = 46\<rparr>"

text \<open>The store after the stand-in constructors have built a transaction (100) and a request (101).\<close>

definition demo_inputs :: "ref \<Rightarrow> state" where
  "demo_inputs f =
     (demo_state f)\<lparr>heap := (heap (demo_state f))
        (100 := freeze_obj (object_literal [(Name ''id'', Str ''tx-1'')]),
         101 := freeze_obj (object_literal [])),
      next_ref := 102\<rparr>"

subsection \<open>A delivery service and a carrier, as values\<close>

definition demo_service ::
  "Packaging list \<Rightarrow> (string, string, string, unit, string, string, string, string) DeliveryService" where
  "demo_service ps =
     \<lparr>ds_id = ''b2a9c1f0-0000-4000-8000-000000000001'', ds_name = ''Ground'',
      ds_description = [], ds_class = ''ground'', ds_grade = ''standard'',
      originCountries = [''US''], destinationCountries = [''US'', ''CA''], carrier = (),
      packaging = ps, deliveryConfirmations = [], labelFormats = [''pdf''],
      labelSizes = [''4x6''], isReturnService = False, allowsMultiplePackages = True,
      hasTracking = True, requiresManifest = None\<rparr>"

text \<open>
  Stand-ins for the classes a carrier is built from: a URL is its text (the empty text
  is not a URL), a service and a localization are what they serialize to, and the
  registry counts the registrations.
\<close>

definition demo_ops ::
  "(string, string, string, string, string, string list, string list, nat, string, nat)
     entity_ops" where
  "demo_ops =
     \<lparr>v_URL_new = (\<lambda>src. case src of
          UrlString t \<Rightarrow> (if t = [] then throwM (TypeError ''Invalid URL'') else returnM t)
        | UrlObject u \<Rightarrow> returnM u),
      v_DeliveryService_new = (\<lambda>svc app. returnM svc),
      v_DeliveryService_toJSON = (\<lambda>d locale. d),
      v_PickupService_new = (\<lambda>svc app. returnM svc),
      v_PickupService_toJSON = (\<lambda>p locale. p),
      v_Localization_new = returnM,
      v_Localization_toJSON = (\<lambda>l. l),
      v_Localization_lookup = (\<lambda>l locale. \<lparr>l_name = None, l_description = None,
          l_websiteURL = None\<rparr>),
      v_empty_object = [],
      v_references_add = (\<lambda>app this w. (Inr (), Suc w))\<rparr>"

definition demo_methods :: "nat methods" where
  "demo_methods =
     \<lparr>m_requestPickup = None, m_cancelPickup = None, m_createLabel = Some 52,
      m_voidLabel = None, m_getRates = Some 53, m_getTrackingURL = None, m_track = None,
      m_createManifest = None\<rparr>"

definition demo_pojo :: "(string, string, string, string list, nat) CarrierPOJO" where
  "demo_pojo =
     \<lparr>pojo_id = ''b2a9c1f0-0000-4000-8000-000000000000'', pojo_name = ''Fast Freight'',
      pojo_description = None, pojo_websiteURL = UrlString ''https://fast.example/'',
      pojo_logo = ''logo.svg'', pojo_deliveryServices = [''Ground'', ''Air''],
      pojo_pickupServices = None, pojo_localization = None, pojo_methods = demo_methods\<rparr>"

definition demo_carrier :: "(string, string, string, string list, nat, string) Carrier" where
  "demo_carrier =
     \<lparr>carrier_id = ''b2a9c1f0-0000-4000-8000-000000000000'', carrier_name = ''Fast Freight'',
      carrier_description = [], carrier_websiteURL = ''https://fast.example/'',
      carrier_logo = ''logo.svg'', carrier_deliveryServices = [''Ground'', ''Air''],
      carrier_pickupServices = [], private_app = ''app'', private_localization = [],
      private_methods = demo_methods,
      undefined_methods = [''requestPickup'', ''cancelPickup'', ''voidLabel'',
        ''getTrackingURL'', ''track'', ''createManifest'']\<rparr>"

subsection \<open>Configuration objects\<close>

text \<open>
  45 is \<^verbatim>\<open>Carrier.prototype\<close> with the wrappers as methods, 80 a carrier POJO that
  implements \<^verbatim>\<open>createLabel\<close> only (function 52), 85 the configuration of a
  delivery service.
\<close>

definition method_property :: "val \<Rightarrow> property" where
  "method_property v = \<lparr>pvalue = v, enumerable = False, writable = True, configurable = True\<rparr>"

definition config_state :: state where
  "config_state =
     \<lparr>heap = (\<lambda>_. empty_obj)
        (45 := \<lparr>props = [(Name ''requestPickup'', method_property (Ref 110)),
                         (Name ''cancelPickup'', method_property (Ref 111)),
                         (Name ''createLabel'', method_property (Ref 112)),
                         (Name ''voidLabel'', method_property (Ref 113)),
                         (Name ''getRates'', method_property (Ref 114)),
                         (Name ''getTrackingURL'', method_property (Ref 115)),
                         (Name ''track'', method_property (Ref 116)),
                         (Name ''createManifest'', method_property (Ref 117))],
                extensible = True, kind = Ordinary, proto = None\<rparr>,
         52 := function_obj,
         80 := object_literal
                 [(Name ''id'', Str ''b2a9c1f0-0000-4000-8000-000000000000''),
                  (Name ''name'', Str ''Fast Freight''),
                  (Name ''websiteURL'', Str ''https://fast.example/''),
                  (Name ''logo'', Str ''logo.svg''),
                  (Name ''deliveryServices'', Ref 81),
                  (Name ''createLabel'', Ref 52)],
         81 := array_literal [Ref 82],
         82 := object_literal [(Name ''name'', Str ''Ground'')],
         85 := object_literal
                 [(Name ''id'', Str ''b2a9c1f0-0000-4000-8000-000000000001''),
                  (Name ''name'', Str ''Ground''),
                  (Name ''class'', Str ''ground''),
                  (Name ''grade'', Str ''standard''),
                  (Name ''originCountries'', Ref 86),
                  (Name ''destinationCountries'', Ref 86),
                  (Name ''carrier'', Ref 80),
                  (Name ''packaging'', Ref 87),
                  (Name ''deliveryConfirmations'', Ref 88),
                  (Name ''labelFormats'', Ref 88),
                  (Name ''labelSizes'', Ref 88)],
         86 := array_literal [Str ''US''],
         87 := array_literal [Ref 89],
         88 := array_literal [],
         89 := object_literal [(Name ''name'', Str ''Box'')],
         110 := function_obj, 111 := function_obj, 112 := function_obj, 113 := function_obj,
         114 := function_obj, 115 := function_obj, 116 := function_obj, 117 := function_obj),
      next_ref = 200, calls = []\<rparr>"

definition constructed_carrier :: state where
  "constructed_carrier = snd (Carrier_constructor demo_env (Ref 80) (Ref 42) config_state)"

definition constructed_service :: state where
  "constructed_service = snd (DeliveryService_constructor demo_env (Ref 85) config_state)"

section \<open>Properties of freezing\<close>

lemma prop_le_refl: "prop_le k p p"
  by (simp add: prop_le_def)

lemma prop_le_trans: "prop_le k p q \<Longrightarrow> prop_le k q r \<Longrightarrow> prop_le k p r"
  by (auto simp: prop_le_def)

lemma entry_le_refl: "entry_le e e"
  by (simp add: entry_le_def prop_le_refl)

lemma entry_le_trans: "entry_le a b \<Longrightarrow> entry_le b c \<Longrightarrow> entry_le a c"
  by (auto simp: entry_le_def intro: prop_le_trans)

lemma entries_le_refl: "list_all2 entry_le ps ps"
  by (simp add: list_all2_same entry_le_refl)

lemma obj_le_refl: "obj_le ob ob"
  by (simp add: obj_le_def entries_le_refl)

lemma obj_le_trans: "obj_le a b \<Longrightarrow> obj_le b c \<Longrightarrow> obj_le a c"
  unfolding obj_le_def
  by (auto elim: list_all2_trans[rotated] intro: entry_le_trans)

lemma evolves_refl: "evolves s s"
  by (simp add: evolves_def obj_le_refl)

lemma evolves_trans: "evolves s t \<Longrightarrow> evolves t u \<Longrightarrow> evolves s u"
  unfolding evolves_def by (blast intro: obj_le_trans)

lemma obj_le_freeze_obj: "obj_le ob (freeze_obj ob)"
  by (auto simp: obj_le_def freeze_obj_def list_all2_map2 list_all2_same entry_le_def
      prop_le_def frozen_prop_def)

lemma obj_le_prevent: "obj_le ob (ob\<lparr>extensible := False\<rparr>)"
  by (simp add: obj_le_def list_all2_same entry_le_refl)

lemma evolves_Object_freeze: "Object_freeze v s = (res, s') \<Longrightarrow> evolves s s'"
  by (auto simp: Object_freeze_def evolves_def obj_le_refl obj_le_freeze_obj obj_le_prevent
      split: val.splits if_splits)

lemma list_all2_map_entry:
  "(\<And>p. entry_le (k, p) (k, f p)) \<Longrightarrow> list_all2 entry_le ps (AList.map_entry k f ps)"
  by (induction ps) (auto simp: entry_le_refl entries_le_refl)

lemma evolves_defineProperty:
  assumes "defineProperty_enumerable r k False s = (res, s')" and "is_symbol k"
    and "own_prop s r k \<noteq> None"
  shows "evolves s s'"
  using assms
  by (auto simp: defineProperty_enumerable_def evolves_def obj_le_def entries_le_refl
      entry_le_def prop_le_def intro!: list_all2_map_entry split: option.splits if_splits)


lemma evolves_kind: "evolves s s' \<Longrightarrow> kind (heap s' r) = kind (heap s r)"
  by (simp add: evolves_def obj_le_def)

lemma entries_le_keys: "list_all2 entry_le ps ps' \<Longrightarrow> map fst ps' = map fst ps"
  by (induction rule: list_all2_induct) (auto simp: entry_le_def)

lemma evolves_keys: "evolves s s' \<Longrightarrow> map fst (props (heap s' r)) = map fst (props (heap s r))"
  by (simp add: evolves_def obj_le_def entries_le_keys)

lemma entries_le_frozen:
  "list_all2 entry_le ps ps' \<Longrightarrow> \<forall>(k, p) \<in> set ps. \<not> writable p \<and> \<not> configurable p \<Longrightarrow>
   \<forall>(k, p) \<in> set ps'. \<not> writable p \<and> \<not> configurable p"
  by (induction rule: list_all2_induct) (auto simp: entry_le_def prop_le_def)

lemma evolves_isFrozen: "evolves s s' \<Longrightarrow> isFrozen s r \<Longrightarrow> isFrozen s' r"
  unfolding isFrozen_def evolves_def obj_le_def
  using entries_le_frozen by blast

lemma evolves_Object_isFrozen: "evolves s s' \<Longrightarrow> Object_isFrozen s v \<Longrightarrow> Object_isFrozen s' v"
  by (auto simp: Object_isFrozen_def evolves_isFrozen split: val.splits)

lemma entries_le_entries:
  "list_all2 entry_le ps ps' \<Longrightarrow>
   map (\<lambda>(k, p). (k, pvalue p)) (filter (\<lambda>(k, p). \<not> is_symbol k \<and> enumerable p) ps') =
   map (\<lambda>(k, p). (k, pvalue p)) (filter (\<lambda>(k, p). \<not> is_symbol k \<and> enumerable p) ps)"
  by (induction rule: list_all2_induct) (auto simp: entry_le_def prop_le_def)

lemma evolves_entries: "evolves s s' \<Longrightarrow> Object_entries s' r = Object_entries s r"
  by (simp add: Object_entries_def evolves_def obj_le_def entries_le_entries)

lemma evolves_symbols:
  "evolves s s' \<Longrightarrow> Object_getOwnPropertySymbols s' r = Object_getOwnPropertySymbols s r"
  by (simp add: Object_getOwnPropertySymbols_def evolves_keys)

lemma entries_le_map_of:
  "list_all2 entry_le ps ps' \<Longrightarrow> map_of ps k = Some p \<Longrightarrow>
   \<exists>p'. map_of ps' k = Some p' \<and> prop_le k p p'"
  by (induction rule: list_all2_induct) (auto simp: entry_le_def split: if_splits)

lemma entries_le_map_of_rev:
  "list_all2 entry_le ps ps' \<Longrightarrow> map_of ps' k = Some p' \<Longrightarrow>
   \<exists>p. map_of ps k = Some p \<and> prop_le k p p'"
  by (induction rule: list_all2_induct) (auto simp: entry_le_def split: if_splits)

lemma evolves_own_prop:
  "evolves s s' \<Longrightarrow> own_prop s r k = Some p \<Longrightarrow> \<exists>p'. own_prop s' r k = Some p' \<and> prop_le k p p'"
  unfolding evolves_def obj_le_def own_prop_def using entries_le_map_of by blast

lemma evolves_own_prop_rev:
  "evolves s s' \<Longrightarrow> own_prop s' r k = Some p' \<Longrightarrow> \<exists>p. own_prop s r k = Some p \<and> prop_le k p p'"
  unfolding evolves_def obj_le_def own_prop_def using entries_le_map_of_rev by blast

lemma evolves_own_prop_None: "evolves s s' \<Longrightarrow> own_prop s' r k = None \<longleftrightarrow> own_prop s r k = None"
  by (metis evolves_own_prop evolves_own_prop_rev option.exhaust option.distinct(1))

lemma evolves_proto: "evolves s s' \<Longrightarrow> proto (heap s' r) = proto (heap s r)"
  by (simp add: evolves_def obj_le_def)

lemma evolves_own_value:
  "evolves s s' \<Longrightarrow> map_option pvalue (own_prop s' r k) = map_option pvalue (own_prop s r k)"
proof (cases "own_prop s r k")
  case None
  assume "evolves s s'"
  then show ?thesis using None by (simp add: evolves_own_prop_None)
next
  case (Some p)
  assume "evolves s s'"
  then obtain p' where "own_prop s' r k = Some p'" "prop_le k p p'"
    using Some evolves_own_prop by blast
  then show ?thesis using Some by (simp add: prop_le_def)
qed

lemma get_ref_alt:
  "get_ref s r k =
     (case map_option pvalue (own_prop s r k) of
        Some v \<Rightarrow> v
      | None \<Rightarrow>
          (case proto (heap s r) of
             None \<Rightarrow> Undefined
           | Some c \<Rightarrow> (case map_option pvalue (own_prop s c k) of Some v \<Rightarrow> v | None \<Rightarrow> Undefined)))"
  by (simp add: get_ref_def split: option.splits)

lemma evolves_get_ref:
  assumes "evolves s s'"
  shows "get_ref s' r k = get_ref s r k"
  unfolding get_ref_alt evolves_own_value[OF assms] evolves_proto[OF assms] by (rule refl)

subsection \<open>The first loop of hideAndFreeze\<close>

lemma freeze_fields_ok: "fst (freeze_fields omit es s) = Inr ()"
  by (induction es arbitrary: s)
     (auto simp: returnM_def bindM_def Object_freeze_def instanceof_Buffer_def typeof_def
        split: prod.splits sum.splits val.splits if_splits)

lemma freeze_fields_Cons:
  "freeze_fields omit ((k, v) # es) s = freeze_fields omit es s \<or>
   (\<exists>s1. Object_freeze v s = (Inr (), s1) \<and> k \<notin> set omit \<and> \<not> instanceof_Buffer s v \<and>
      freeze_fields omit ((k, v) # es) s = freeze_fields omit es s1)"
  by (auto simp: bindM_def Object_freeze_def instanceof_Buffer_def split: val.splits)

lemma freeze_fields_evolves: "evolves s (snd (freeze_fields omit es s))"
proof (induction es arbitrary: s)
  case Nil
  show ?case by (simp add: returnM_def evolves_refl)
next
  case (Cons e es)
  obtain k v where e: "e = (k, v)" by (cases e)
  from freeze_fields_Cons[of omit k v es s] show ?case
  proof
    assume "freeze_fields omit ((k, v) # es) s = freeze_fields omit es s"
    then show ?thesis using Cons.IH e by simp
  next
    assume "\<exists>s1. Object_freeze v s = (Inr (), s1) \<and> k \<notin> set omit \<and> \<not> instanceof_Buffer s v \<and>
      freeze_fields omit ((k, v) # es) s = freeze_fields omit es s1"
    then obtain s1 where s1: "Object_freeze v s = (Inr (), s1)"
      and eq: "freeze_fields omit ((k, v) # es) s = freeze_fields omit es s1" by blast
    have "evolves s s1" using s1 by (rule evolves_Object_freeze)
    then show ?thesis using Cons.IH[of s1] e eq evolves_trans by auto
  qed
qed

lemma Object_freeze_isFrozen: "Object_freeze (Ref r) s = (Inr (), s') \<Longrightarrow> isFrozen s' r"
  by (auto simp: Object_freeze_def isFrozen_def freeze_obj_def frozen_prop_def split: if_splits)

lemma freeze_fields_frozen:
  "(k, Ref r) \<in> set es \<Longrightarrow> k \<notin> set omit \<Longrightarrow> kind (heap s r) \<noteq> Buffer \<Longrightarrow>
   isFrozen (snd (freeze_fields omit es s)) r"
proof (induction es arbitrary: s)
  case Nil
  then show ?case by simp
next
  case (Cons e es)
  obtain k' v where e: "e = (k', v)" by (cases e)
  show ?case
  proof (cases "e = (k, Ref r)")
    case True
    then have kv: "k' = k" "v = Ref r" using e by auto
    obtain s1 where s1: "Object_freeze (Ref r) s = (Inr (), s1)"
      using Cons.prems(3) by (auto simp: Object_freeze_def)
    have eq: "freeze_fields omit (e # es) s = freeze_fields omit es s1"
      using s1 Cons.prems(2,3) e kv
      by (auto simp: bindM_def typeof_def instanceof_Buffer_def)
    have "isFrozen s1 r" using s1 by (rule Object_freeze_isFrozen)
    then show ?thesis using eq freeze_fields_evolves[of s1 omit es] evolves_isFrozen by simp
  next
    case False
    then have mem: "(k, Ref r) \<in> set es" using Cons.prems(1) by simp
    from freeze_fields_Cons[of omit k' v es s] show ?thesis
    proof
      assume "freeze_fields omit ((k', v) # es) s = freeze_fields omit es s"
      then show ?thesis using Cons.IH[OF mem Cons.prems(2,3)] e by simp
    next
      assume "\<exists>s1. Object_freeze v s = (Inr (), s1) \<and> k' \<notin> set omit \<and> \<not> instanceof_Buffer s v \<and>
        freeze_fields omit ((k', v) # es) s = freeze_fields omit es s1"
      then obtain s1 where s1: "Object_freeze v s = (Inr (), s1)"
        and eq: "freeze_fields omit ((k', v) # es) s = freeze_fields omit es s1" by blast
      have "kind (heap s1 r) \<noteq> Buffer"
        using evolves_kind[OF evolves_Object_freeze[OF s1]] Cons.prems(3) by simp
      then show ?thesis using Cons.IH[OF mem Cons.prems(2), of s1] e eq by simp
    qed
  qed
qed


subsection \<open>The second loop\<close>

lemma evolves_freezable: "evolves s s' \<Longrightarrow> freezable s' v = freezable s v"
  by (simp add: freezable_def has_elements_def evolves_kind evolves_keys split: val.splits)

lemma Object_freeze_freezable: "Object_freeze v s = (Inr (), s') \<Longrightarrow> freezable s v"
  by (auto simp: Object_freeze_def freezable_def split: val.splits if_splits)

lemma evolves_hidden_frozen: "evolves s s' \<Longrightarrow> hidden_frozen s r k \<Longrightarrow> hidden_frozen s' r k"
proof -
  assume e: "evolves s s'" and h: "hidden_frozen s r k"
  from h obtain p where p: "own_prop s r k = Some p" "\<not> enumerable p" "Object_isFrozen s (pvalue p)"
    "freezable s (pvalue p)"
    unfolding hidden_frozen_def by blast
  from evolves_own_prop[OF e p(1)] obtain p' where p': "own_prop s' r k = Some p'" "prop_le k p p'"
    by blast
  have "\<not> enumerable p'" "pvalue p' = pvalue p" using p'(2) p(2) by (auto simp: prop_le_def)
  moreover have "Object_isFrozen s' (pvalue p)" using e p(3) by (rule evolves_Object_isFrozen)
  moreover have "freezable s' (pvalue p)" using e p(4) by (simp add: evolves_freezable)
  ultimately show ?thesis unfolding hidden_frozen_def using p'(1) by simp
qed

lemma map_of_map_entry_same:
  "map_of ps k = Some p \<Longrightarrow> map_of (AList.map_entry k f ps) k = Some (f p)"
  by (induction ps) auto

lemma defineProperty_hidden:
  "defineProperty_enumerable r k False s = (Inr (), s1) \<Longrightarrow> own_prop s r k \<noteq> None \<Longrightarrow>
   \<exists>p. own_prop s1 r k = Some p \<and> \<not> enumerable p"
  by (auto simp: defineProperty_enumerable_def own_prop_def map_of_map_entry_same
      split: option.splits if_splits)

lemma Object_freeze_Object_isFrozen: "Object_freeze v s = (Inr (), s') \<Longrightarrow> Object_isFrozen s' v"
  by (cases v) (auto simp: Object_isFrozen_def Object_freeze_isFrozen)

lemma hide_symbols_Cons:
  assumes "hide_symbols obj (k # ks) s = (Inr (), s')"
  obtains s1 s2 where "defineProperty_enumerable obj k False s = (Inr (), s1)"
    and "Object_freeze (get_ref s1 obj k) s1 = (Inr (), s2)"
    and "hide_symbols obj ks s2 = (Inr (), s')"
  using assms
  by (auto simp: bindM_def getM_def split: prod.splits sum.splits)

lemma hide_symbols_evolves:
  "\<forall>k \<in> set ks. is_symbol k \<and> own_prop s obj k \<noteq> None \<Longrightarrow>
   hide_symbols obj ks s = (Inr (), s') \<Longrightarrow> evolves s s'"
proof (induction ks arbitrary: s)
  case Nil
  then show ?case by (simp add: returnM_def evolves_refl)
next
  case (Cons k ks)
  from Cons.prems(2) obtain s1 s2 where
    d: "defineProperty_enumerable obj k False s = (Inr (), s1)"
    and f: "Object_freeze (get_ref s1 obj k) s1 = (Inr (), s2)"
    and r: "hide_symbols obj ks s2 = (Inr (), s')"
    by (rule hide_symbols_Cons)
  have e1: "evolves s s1" using d Cons.prems(1) by (auto intro: evolves_defineProperty)
  have e2: "evolves s1 s2" using f by (rule evolves_Object_freeze)
  have e12: "evolves s s2" using e1 e2 by (rule evolves_trans)
  have "\<forall>k \<in> set ks. is_symbol k \<and> own_prop s2 obj k \<noteq> None"
    using Cons.prems(1) evolves_own_prop_None[OF e12] by simp
  then have "evolves s2 s'" using Cons.IH r by blast
  then show ?case using e12 evolves_trans by blast
qed

lemma hide_symbols_hidden:
  "\<forall>k \<in> set ks. is_symbol k \<and> own_prop s obj k \<noteq> None \<Longrightarrow>
   hide_symbols obj ks s = (Inr (), s') \<Longrightarrow> \<forall>k \<in> set ks. hidden_frozen s' obj k"
proof (induction ks arbitrary: s)
  case Nil
  then show ?case by simp
next
  case (Cons k ks)
  from Cons.prems(2) obtain s1 s2 where
    d: "defineProperty_enumerable obj k False s = (Inr (), s1)"
    and f: "Object_freeze (get_ref s1 obj k) s1 = (Inr (), s2)"
    and r: "hide_symbols obj ks s2 = (Inr (), s')"
    by (rule hide_symbols_Cons)
  have e1: "evolves s s1" using d Cons.prems(1) by (auto intro: evolves_defineProperty)
  have e2: "evolves s1 s2" using f by (rule evolves_Object_freeze)
  have e12: "evolves s s2" using e1 e2 by (rule evolves_trans)
  have pre: "\<forall>k \<in> set ks. is_symbol k \<and> own_prop s2 obj k \<noteq> None"
    using Cons.prems(1) evolves_own_prop_None[OF e12] by simp
  have e3: "evolves s2 s'" using pre r by (rule hide_symbols_evolves)
  obtain p where p: "own_prop s1 obj k = Some p" "\<not> enumerable p"
    using defineProperty_hidden[OF d] Cons.prems(1) by auto
  then have v: "get_ref s1 obj k = pvalue p" by (simp add: get_ref_def)
  have "Object_isFrozen s2 (pvalue p)"
    using f v Object_freeze_Object_isFrozen by simp
  moreover have "freezable s2 (pvalue p)"
    using f v Object_freeze_freezable evolves_freezable[OF e2] by simp
  moreover obtain p2 where "own_prop s2 obj k = Some p2" "prop_le k p p2"
    using evolves_own_prop[OF e2 p(1)] by blast
  ultimately have "hidden_frozen s2 obj k"
    using p(2) by (auto simp: hidden_frozen_def prop_le_def)
  then have "hidden_frozen s' obj k" using e3 evolves_hidden_frozen by blast
  then show ?case using Cons.IH[OF pre r] by simp
qed

lemma symbols_are_keys:
  "\<forall>k \<in> set (Object_getOwnPropertySymbols s r). is_symbol k \<and> own_prop s r k \<noteq> None"
  by (auto simp: Object_getOwnPropertySymbols_def own_prop_def map_of_eq_None_iff)

lemma own_symbol_listed:
  "own_prop s r k = Some p \<Longrightarrow> is_symbol k \<Longrightarrow> k \<in> set (Object_getOwnPropertySymbols s r)"
proof -
  assume "own_prop s r k = Some p" and k: "is_symbol k"
  then have "(k, p) \<in> set (props (heap s r))" by (simp add: own_prop_def map_of_SomeD)
  then have "k \<in> fst ` set (props (heap s r))" by force
  then show ?thesis using k by (simp add: Object_getOwnPropertySymbols_def)
qed

lemma own_entry_listed:
  "own_prop s r k = Some p \<Longrightarrow> \<not> is_symbol k \<Longrightarrow> enumerable p \<Longrightarrow>
   (k, pvalue p) \<in> set (Object_entries s r)"
proof -
  assume "own_prop s r k = Some p" and k: "\<not> is_symbol k" "enumerable p"
  then have "(k, p) \<in> set (props (heap s r))" by (simp add: own_prop_def map_of_SomeD)
  then have "(k, p) \<in> set (filter (\<lambda>(k, p). \<not> is_symbol k \<and> enumerable p) (props (heap s r)))"
    using k by simp
  then have "(\<lambda>(k, p). (k, pvalue p)) (k, p) \<in>
      (\<lambda>(k, p). (k, pvalue p)) ` set (filter (\<lambda>(k, p). \<not> is_symbol k \<and> enumerable p) (props (heap s r)))"
    by (rule imageI)
  then show ?thesis by (simp add: Object_entries_def)
qed

subsection \<open>The whole function\<close>

lemma hideAndFreeze_steps:
  assumes "hideAndFreeze obj omit s = (Inr (), s')"
  obtains s1 s2 where "freeze_fields omit (Object_entries s obj) s = (Inr (), s1)"
    and "hide_symbols obj (Object_getOwnPropertySymbols s1 obj) s1 = (Inr (), s2)"
    and "Object_freeze (Ref obj) s2 = (Inr (), s')"
  using assms
  by (auto simp: hideAndFreeze_def bindM_def split: prod.splits sum.splits)

lemma hideAndFreeze_post:
  assumes "hideAndFreeze obj omit s = (Inr (), s')"
  shows "evolves s s'"
    and "isFrozen s' obj"
    and "\<forall>k. is_symbol k \<and> own_prop s' obj k \<noteq> None \<longrightarrow> hidden_frozen s' obj k"
    and "\<forall>k p r. own_prop s' obj k = Some p \<and> \<not> is_symbol k \<and> enumerable p \<and> k \<notin> set omit \<and>
           pvalue p = Ref r \<and> kind (heap s' r) \<noteq> Buffer \<longrightarrow> isFrozen s' r"
proof -
  from assms obtain s1 s2 where
    l1: "freeze_fields omit (Object_entries s obj) s = (Inr (), s1)"
    and l2: "hide_symbols obj (Object_getOwnPropertySymbols s1 obj) s1 = (Inr (), s2)"
    and l3: "Object_freeze (Ref obj) s2 = (Inr (), s')"
    by (rule hideAndFreeze_steps)
  have e1: "evolves s s1" using freeze_fields_evolves[of s omit "Object_entries s obj"] l1 by simp
  have e2: "evolves s1 s2" using symbols_are_keys l2 by (rule hide_symbols_evolves)
  have e3: "evolves s2 s'" using l3 by (rule evolves_Object_freeze)
  have e13: "evolves s1 s'" using e2 e3 by (rule evolves_trans)
  show e: "evolves s s'" using e1 e13 by (rule evolves_trans)
  show "isFrozen s' obj" using l3 by (rule Object_freeze_isFrozen)
  have h2: "\<forall>k \<in> set (Object_getOwnPropertySymbols s1 obj). hidden_frozen s2 obj k"
    using symbols_are_keys l2 by (rule hide_symbols_hidden)
  show "\<forall>k. is_symbol k \<and> own_prop s' obj k \<noteq> None \<longrightarrow> hidden_frozen s' obj k"
  proof (intro allI impI)
    fix k assume k: "is_symbol k \<and> own_prop s' obj k \<noteq> None"
    then obtain p where "own_prop s1 obj k = Some p"
      using evolves_own_prop_None[OF e13] by auto
    then have "k \<in> set (Object_getOwnPropertySymbols s1 obj)"
      using k own_symbol_listed by blast
    then have "hidden_frozen s2 obj k" using h2 by blast
    then show "hidden_frozen s' obj k" using e3 evolves_hidden_frozen by blast
  qed
  show "\<forall>k p r. own_prop s' obj k = Some p \<and> \<not> is_symbol k \<and> enumerable p \<and> k \<notin> set omit \<and>
           pvalue p = Ref r \<and> kind (heap s' r) \<noteq> Buffer \<longrightarrow> isFrozen s' r"
  proof (intro allI impI)
    fix k p r
    assume a: "own_prop s' obj k = Some p \<and> \<not> is_symbol k \<and> enumerable p \<and> k \<notin> set omit \<and>
           pvalue p = Ref r \<and> kind (heap s' r) \<noteq> Buffer"
    then obtain p0 where p0: "own_prop s obj k = Some p0" "prop_le k p0 p"
      using evolves_own_prop_rev[OF e] by blast
    then have "(k, Ref r) \<in> set (Object_entries s obj)"
      using a own_entry_listed[OF p0(1)] by (auto simp: prop_le_def)
    moreover have "kind (heap s r) \<noteq> Buffer" using a evolves_kind[OF e] by simp
    ultimately have "isFrozen s1 r"
      using freeze_fields_frozen[of k r "Object_entries s obj" omit s] a l1 by simp
    then show "isFrozen s' r" using e13 evolves_isFrozen by blast
  qed
qed


subsection \<open>A second application changes nothing\<close>

lemma frozen_prop_id: "\<not> writable p \<Longrightarrow> \<not> configurable p \<Longrightarrow> frozen_prop p = p"
  by (simp add: frozen_prop_def)

lemma freeze_obj_id:
  assumes "\<not> extensible ob" and "\<forall>(k, p) \<in> set (props ob). \<not> writable p \<and> \<not> configurable p"
  shows "freeze_obj ob = ob"
proof -
  have "map (\<lambda>(k, p). (k, frozen_prop p)) (props ob) = props ob"
    using assms(2) by (intro map_idI) (auto simp: frozen_prop_id)
  then show ?thesis using assms(1) by (simp add: freeze_obj_def)
qed

lemma Object_freeze_id:
  "Object_isFrozen s v \<Longrightarrow> freezable s v \<Longrightarrow> Object_freeze v s = (Inr (), s)"
  by (cases v)
     (auto simp: Object_freeze_def Object_isFrozen_def freezable_def isFrozen_def freeze_obj_id)

lemma map_entry_id: "map_of ps k = Some p \<Longrightarrow> f p = p \<Longrightarrow> AList.map_entry k f ps = ps"
  by (induction ps) (auto split: if_splits)

lemma defineProperty_id:
  "own_prop s r k = Some p \<Longrightarrow> \<not> enumerable p \<Longrightarrow>
   defineProperty_enumerable r k False s = (Inr (), s)"
  by (simp add: defineProperty_enumerable_def own_prop_def map_entry_id)

lemma freeze_fields_id:
  "\<forall>(k, v) \<in> set es. k \<notin> set omit \<longrightarrow> typeof s v = T_object \<or> typeof s v = T_function \<longrightarrow>
      \<not> instanceof_Buffer s v \<longrightarrow> Object_freeze v s = (Inr (), s) \<Longrightarrow>
   freeze_fields omit es s = (Inr (), s)"
proof (induction es)
  case Nil
  show ?case by (simp add: returnM_def)
next
  case (Cons e es)
  obtain k v where e: "e = (k, v)" by (cases e)
  have rest: "freeze_fields omit es s = (Inr (), s)" using Cons by simp
  have "k \<notin> set omit \<Longrightarrow> typeof s v = T_object \<or> typeof s v = T_function \<Longrightarrow>
      \<not> instanceof_Buffer s v \<Longrightarrow> Object_freeze v s = (Inr (), s)"
    using Cons.prems e by auto
  then show ?case unfolding e using rest by (simp add: bindM_def)
qed

lemma hide_symbols_id:
  "\<forall>k \<in> set ks. defineProperty_enumerable obj k False s = (Inr (), s) \<and>
      Object_freeze (get_ref s obj k) s = (Inr (), s) \<Longrightarrow>
   hide_symbols obj ks s = (Inr (), s)"
  by (induction ks) (auto simp: returnM_def bindM_def getM_def)

lemma hideAndFreeze_again:
  assumes "hideAndFreeze obj omit s = (Inr (), s')"
  shows "hideAndFreeze obj omit s' = (Inr (), s')"
proof -
  from assms obtain s1 s2 where
    l1: "freeze_fields omit (Object_entries s obj) s = (Inr (), s1)"
    and l2: "hide_symbols obj (Object_getOwnPropertySymbols s1 obj) s1 = (Inr (), s2)"
    and l3: "Object_freeze (Ref obj) s2 = (Inr (), s')"
    by (rule hideAndFreeze_steps)
  note post = hideAndFreeze_post[OF assms]
  have e: "evolves s s'" by (rule post(1))
  have a1: "freeze_fields omit (Object_entries s' obj) s' = (Inr (), s')"
  proof (rule freeze_fields_id, clarify)
    fix k v
    assume kv: "(k, v) \<in> set (Object_entries s' obj)" "k \<notin> set omit"
      "typeof s' v = T_object \<or> typeof s' v = T_function" "\<not> instanceof_Buffer s' v"
    show "Object_freeze v s' = (Inr (), s')"
    proof (cases v)
      case (Ref r)
      from kv(1) obtain p where p: "(k, p) \<in> set (props (heap s' obj))" "\<not> is_symbol k"
        "enumerable p" "pvalue p = v"
        by (auto simp: Object_entries_def)
      have nb: "kind (heap s' r) \<noteq> Buffer" using kv(4) Ref by (simp add: instanceof_Buffer_def)
      then have nb0: "kind (heap s r) \<noteq> Buffer" using evolves_kind[OF e] by simp
      have "(k, Ref r) \<in> set (Object_entries s obj)"
        using kv(1) Ref evolves_entries[OF e] by simp
      then have "isFrozen s1 r"
        using freeze_fields_frozen[of k r "Object_entries s obj" omit s] kv(2) nb0 l1 by simp
      moreover have "evolves s1 s'"
        using hide_symbols_evolves[OF symbols_are_keys l2] evolves_Object_freeze[OF l3]
          evolves_trans by blast
      ultimately have "isFrozen s' r" using evolves_isFrozen by blast
      then show ?thesis
        using nb Ref by (intro Object_freeze_id) (simp_all add: Object_isFrozen_def freezable_def)
    qed (simp_all add: Object_freeze_def)
  qed
  have a2: "hide_symbols obj (Object_getOwnPropertySymbols s' obj) s' = (Inr (), s')"
  proof (rule hide_symbols_id, intro ballI)
    fix k assume "k \<in> set (Object_getOwnPropertySymbols s' obj)"
    then have "is_symbol k \<and> own_prop s' obj k \<noteq> None" using symbols_are_keys by blast
    then have "hidden_frozen s' obj k" using post(3) by blast
    then obtain p where p: "own_prop s' obj k = Some p" "\<not> enumerable p"
      "Object_isFrozen s' (pvalue p)" "freezable s' (pvalue p)"
      unfolding hidden_frozen_def by blast
    have "get_ref s' obj k = pvalue p" using p(1) by (simp add: get_ref_def)
    then show "defineProperty_enumerable obj k False s' = (Inr (), s') \<and>
        Object_freeze (get_ref s' obj k) s' = (Inr (), s')"
      using p defineProperty_id Object_freeze_id by simp
  qed
  have "freezable s' (Ref obj)"
    using Object_freeze_freezable[OF l3] evolves_freezable[OF evolves_Object_freeze[OF l3]] by simp
  then have a3: "Object_freeze (Ref obj) s' = (Inr (), s')"
    using post(2) by (intro Object_freeze_id) (simp_all add: Object_isFrozen_def)
  show ?thesis
    using a1 a2 a3 by (simp add: hideAndFreeze_def bindM_def)
qed

subsection \<open>A frozen object cannot be changed\<close>

lemma frozen_own_prop:
  "isFrozen s r \<Longrightarrow> own_prop s r k = Some p \<Longrightarrow> \<not> writable p \<and> \<not> configurable p"
  by (auto simp: isFrozen_def own_prop_def dest!: map_of_SomeD)

lemma frozen_assign:
  "isFrozen s r \<Longrightarrow> \<exists>msg. assignM (Ref r) k v s = (Inl (TypeError msg), s)"
proof -
  assume f: "isFrozen s r"
  then have ne: "\<not> extensible (heap s r)" by (simp add: isFrozen_def)
  show ?thesis
  proof (cases "own_prop s r k")
    case None
    then show ?thesis using ne by (simp add: assignM_def add_property_def split: option.splits)
  next
    case (Some p)
    then have "\<not> writable p" using f frozen_own_prop by blast
    then show ?thesis using Some by (simp add: assignM_def)
  qed
qed

lemma frozen_delete:
  "isFrozen s r \<Longrightarrow> snd (deleteM (Ref r) k s) = s \<and>
     (own_prop s r k \<noteq> None \<longrightarrow> (\<exists>msg. fst (deleteM (Ref r) k s) = Inl (TypeError msg)))"
proof -
  assume f: "isFrozen s r"
  show ?thesis
  proof (cases "own_prop s r k")
    case None
    then show ?thesis by (simp add: deleteM_def)
  next
    case (Some p)
    then have "\<not> configurable p" using f frozen_own_prop by blast
    then show ?thesis using Some by (simp add: deleteM_def)
  qed
qed

section \<open>hideAndFreeze: what it establishes, and applying it twice\<close>

lemma entity_run:
  "hideAndFreeze 10 [] entity_state =
     (Inr (), entity_state\<lparr>heap := (heap entity_state)
        (11 := freeze_obj (heap entity_state 11),
         13 := freeze_obj (heap entity_state 13),
         10 := freeze_obj ((heap entity_state 10)\<lparr>props :=
                AList.map_entry (Symbol ''private fields'') (\<lambda>p. p\<lparr>enumerable := False\<rparr>)
                  (props (heap entity_state 10))\<rparr>))\<rparr>)"
  by (simp add: hideAndFreeze_def Object_entries_def Object_getOwnPropertySymbols_def
      entity_state_def bindM_def returnM_def Object_freeze_def typeof_def instanceof_Buffer_def
      is_symbol_def data_property_def defineProperty_enumerable_def own_prop_def getM_def
      get_ref_def has_elements_def is_index_def empty_obj_def fun_upd_twist)

lemma entity_frozen_eq:
  "entity_frozen = entity_state\<lparr>heap := (heap entity_state)
        (11 := freeze_obj (heap entity_state 11),
         13 := freeze_obj (heap entity_state 13),
         10 := freeze_obj ((heap entity_state 10)\<lparr>props :=
                AList.map_entry (Symbol ''private fields'') (\<lambda>p. p\<lparr>enumerable := False\<rparr>)
                  (props (heap entity_state 10))\<rparr>))\<rparr>"
  by (simp add: entity_frozen_def entity_run)

lemma entity_frozen_run: "hideAndFreeze 10 [] entity_state = (Inr (), entity_frozen)"
  by (simp add: entity_frozen_def entity_run)

lemma entity_frozen_heap:
  "heap entity_frozen 10 =
     \<lparr>props = [(Name ''name'', \<lparr>pvalue = Str ''Fast'', enumerable = True, writable = False,
                               configurable = False\<rparr>),
               (Name ''services'', \<lparr>pvalue = Ref 11, enumerable = True, writable = False,
                               configurable = False\<rparr>),
               (Name ''logo'', \<lparr>pvalue = Ref 12, enumerable = True, writable = False,
                               configurable = False\<rparr>),
               (Symbol ''private fields'', \<lparr>pvalue = Ref 13, enumerable = False,
                               writable = False, configurable = False\<rparr>)],
      extensible = False, kind = Ordinary, proto = None\<rparr>"
  "heap entity_frozen 12 =
     \<lparr>props = [(Index 0, data_property (Num 255))],
      extensible = True, kind = Buffer, proto = None\<rparr>"
  by (simp_all add: entity_frozen_eq entity_state_def freeze_obj_def frozen_prop_def
      data_property_def)

text \<open>
  C6, as amended.  When \<open>hideAndFreeze(obj)\<close> (no omitted keys) returns, every enumerable
  string-keyed field of \<open>obj\<close> whose value is an object or function other than a Buffer
  holds a frozen value; every symbol-keyed field is non-enumerable and holds a frozen
  value; \<open>obj\<close> itself is frozen, and an assignment to any of its fields, old or new, is
  rejected with a TypeError and changes nothing.
\<close>

theorem hideAndFreeze_freezes:
  "hideAndFreeze obj [] s = (Inr (), s') \<Longrightarrow>
     (\<forall>k p r. own_prop s' obj k = Some p \<and> \<not> is_symbol k \<and> enumerable p \<and> pvalue p = Ref r \<and>
          kind (heap s' r) \<noteq> Buffer \<longrightarrow> isFrozen s' r) \<and>
     (\<forall>k p. own_prop s' obj k = Some p \<and> is_symbol k \<longrightarrow>
          \<not> enumerable p \<and> Object_isFrozen s' (pvalue p)) \<and>
     isFrozen s' obj \<and>
     (\<forall>k v. \<exists>msg. assignM (Ref obj) k v s' = (Inl (TypeError msg), s'))"
proof -
  assume run: "hideAndFreeze obj [] s = (Inr (), s')"
  note post = hideAndFreeze_post[OF run]
  have "\<forall>k p. own_prop s' obj k = Some p \<and> is_symbol k \<longrightarrow>
          \<not> enumerable p \<and> Object_isFrozen s' (pvalue p)"
  proof (intro allI impI)
    fix k p assume a: "own_prop s' obj k = Some p \<and> is_symbol k"
    then have "hidden_frozen s' obj k" using post(3) by simp
    then show "\<not> enumerable p \<and> Object_isFrozen s' (pvalue p)"
      using a by (auto simp: hidden_frozen_def)
  qed
  moreover have "\<forall>k p r. own_prop s' obj k = Some p \<and> \<not> is_symbol k \<and> enumerable p \<and>
      pvalue p = Ref r \<and> kind (heap s' r) \<noteq> Buffer \<longrightarrow> isFrozen s' r"
    using post(4) by simp
  moreover have "\<forall>k v. \<exists>msg. assignM (Ref obj) k v s' = (Inl (TypeError msg), s')"
    using post(2) frozen_assign by blast
  ultimately show ?thesis using post(2) by blast
qed

theorem hideAndFreeze_freezes_witness:
  "hideAndFreeze 10 [] entity_state = (Inr (), entity_frozen) \<and>
   isFrozen entity_frozen 11 \<and> isFrozen entity_frozen 13 \<and> isFrozen entity_frozen 10 \<and>
   own_prop entity_frozen 10 (Symbol ''private fields'') =
     Some \<lparr>pvalue = Ref 13, enumerable = False, writable = False, configurable = False\<rparr> \<and>
   (\<exists>msg. assignM (Ref 10) (Name ''name'') (Str ''Slow'') entity_frozen =
      (Inl (TypeError msg), entity_frozen))"
proof -
  note t = hideAndFreeze_freezes[OF entity_frozen_run]
  have services: "own_prop entity_frozen 10 (Name ''services'') =
      Some \<lparr>pvalue = Ref 11, enumerable = True, writable = False, configurable = False\<rparr>"
    by (simp add: own_prop_def entity_frozen_heap)
  have "kind (heap entity_frozen 11) \<noteq> Buffer"
    by (simp add: entity_frozen_eq entity_state_def freeze_obj_def)
  then have 1: "isFrozen entity_frozen 11"
    using t[THEN conjunct1, rule_format, of "Name ''services''" _ 11] services
    by (simp add: is_symbol_def)
  have priv: "own_prop entity_frozen 10 (Symbol ''private fields'') =
      Some \<lparr>pvalue = Ref 13, enumerable = False, writable = False, configurable = False\<rparr>"
    by (simp add: own_prop_def entity_frozen_heap)
  then have "Object_isFrozen entity_frozen (Ref 13)"
    using t[THEN conjunct2, THEN conjunct1, rule_format, of "Symbol ''private fields''"]
    by (simp add: is_symbol_def)
  then have 3: "isFrozen entity_frozen 13" by (simp add: Object_isFrozen_def)
  show ?thesis using t 1 3 priv entity_frozen_run by blast
qed

theorem hideAndFreeze_buffer_counterexample:
  "hideAndFreeze 10 [] entity_state = (Inr (), entity_frozen) \<and>
   own_prop entity_frozen 10 (Name ''logo'') =
     Some \<lparr>pvalue = Ref 12, enumerable = True, writable = False, configurable = False\<rparr> \<and>
   typeof entity_frozen (Ref 12) = T_object \<and>
   \<not> isFrozen entity_frozen 12 \<and>
   fst (assignM (Ref 12) (Index 0) (Num 0) entity_frozen) = Inr ()"
  by (simp add: entity_frozen_run own_prop_def entity_frozen_heap typeof_def isFrozen_def
      assignM_def data_property_def)

text \<open>
  C7.  Once \<open>hideAndFreeze(obj, ...omit)\<close> has returned, applying it again is a no-op: it
  returns normally and leaves the whole store as it is.
\<close>

theorem hideAndFreeze_idempotent:
  "hideAndFreeze obj omit s = (Inr (), s') \<Longrightarrow> hideAndFreeze obj omit s' = (Inr (), s')"
  by (rule hideAndFreeze_again)

theorem hideAndFreeze_idempotent_witness:
  "hideAndFreeze 10 [] entity_state = (Inr (), entity_frozen) \<and>
   hideAndFreeze 10 [] entity_frozen = (Inr (), entity_frozen)"
  using hideAndFreeze_idempotent[OF entity_frozen_run] entity_frozen_run by simp

section \<open>Properties of the wrappers\<close>

lemma keeps_callsD: "keeps_calls m \<Longrightarrow> m s = (res, s') \<Longrightarrow> calls s' = calls s"
  by (metis keeps_calls_def snd_conv)

lemma keeps_calls_ext: "keeps_calls (ext m)"
  by (simp add: keeps_calls_def ext_def split: prod.splits)

lemma keeps_calls_returnM: "keeps_calls (returnM x)"
  by (simp add: keeps_calls_def returnM_def)

lemma keeps_calls_throwM: "keeps_calls (throwM e)"
  by (simp add: keeps_calls_def throwM_def)

lemma keeps_calls_getM: "keeps_calls (getM v k)"
  by (simp add: keeps_calls_def getM_def split: val.splits)

lemma keeps_calls_assignM: "keeps_calls (assignM v k x)"
  by (simp add: keeps_calls_def assignM_def add_property_def split: val.splits option.splits)

lemma keeps_calls_allocM: "keeps_calls (allocM ob)"
  by (simp add: keeps_calls_def allocM_def)

lemma keeps_calls_bindM:
  "keeps_calls m \<Longrightarrow> (\<And>x. keeps_calls (f x)) \<Longrightarrow> keeps_calls (bindM m f)"
  unfolding keeps_calls_def bindM_def
  by (auto split: prod.splits sum.splits) (metis snd_conv)+

lemma keeps_calls_if:
  "keeps_calls m \<Longrightarrow> keeps_calls n \<Longrightarrow> keeps_calls (if b then m else n)"
  by simp

lemmas keeps_calls_intros =
  keeps_calls_bindM keeps_calls_if keeps_calls_ext keeps_calls_returnM keeps_calls_throwM
  keeps_calls_getM keeps_calls_assignM keeps_calls_allocM

lemma keeps_calls_construct_inputs: "keeps_calls (construct_inputs c1 c2)"
  unfolding construct_inputs_def by (intro keeps_calls_intros)






lemma call_await_cases:
  assumes "kind (heap s fr) = Function" and "apply_fn env fr args s = (oc, s')"
  shows "call_await env (Ref fr) args s =
     (case oc of Returns v \<Rightarrow> Inr v | Resolves v \<Rightarrow> Inr v | Throws e \<Rightarrow> Inl e | Rejects e \<Rightarrow> Inl e,
      logged s fr args s')"
  using assms by (simp add: call_await_def logged_def Let_def split: outcome.splits)

lemma app_error_eq:
  "app_error msg tx e s = (Inl (error AppError msg e (Some (get_ref s tx (Name ''id'')))), s)"
  by (simp add: app_error_def bindM_def getM_def throwM_def)




lemma requestPickup_InvalidInput:
  assumes "get_ref s this private_sym = Ref pr"
    and "construct_inputs (Transaction_new env t) (PickupRequest_new env r (get_ref s pr (Name ''app''))) s
           = (Inl e, s')"
  shows "requestPickup env this t r s =
     (Inl (error InvalidInput ''Invalid input to the requestPickup method.'' e None), s') \<and>
     calls s' = calls s"
  using assms keeps_callsD[OF keeps_calls_construct_inputs assms(2)]
  by (simp add: requestPickup_def bindM_def getM_def catchM_def throwM_def)

lemma cancelPickup_InvalidInput:
  assumes "get_ref s this private_sym = Ref pr"
    and "construct_inputs (Transaction_new env t) (PickupCancellation_new env r (get_ref s pr (Name ''app''))) s
           = (Inl e, s')"
  shows "cancelPickup env this t r s =
     (Inl (error InvalidInput ''Invalid input to the cancelPickup method.'' e None), s') \<and>
     calls s' = calls s"
  using assms keeps_callsD[OF keeps_calls_construct_inputs assms(2)]
  by (simp add: cancelPickup_def bindM_def getM_def catchM_def throwM_def)

lemma createLabel_InvalidInput:
  assumes "get_ref s this private_sym = Ref pr"
    and "construct_inputs (Transaction_new env t) (LabelSpec_new env r (get_ref s pr (Name ''app''))) s
           = (Inl e, s')"
  shows "createLabel env this t r s =
     (Inl (error InvalidInput ''Invalid input to the createLabel method.'' e None), s') \<and>
     calls s' = calls s"
  using assms keeps_callsD[OF keeps_calls_construct_inputs assms(2)]
  by (simp add: createLabel_def bindM_def getM_def catchM_def throwM_def)

lemma getRates_InvalidInput:
  assumes "get_ref s this private_sym = Ref pr"
    and "construct_inputs (Transaction_new env t) (RateCriteria_new env r (get_ref s pr (Name ''app''))) s
           = (Inl e, s')"
  shows "getRates env this t r s =
     (Inl (error InvalidInput ''Invalid input to the getRates method.'' e None), s') \<and>
     calls s' = calls s"
  using assms keeps_callsD[OF keeps_calls_construct_inputs assms(2)]
  by (simp add: getRates_def bindM_def getM_def catchM_def throwM_def)

lemma getTrackingURL_InvalidInput:
  assumes "get_ref s this private_sym = Ref pr"
    and "construct_inputs (Transaction_new env t) (TrackingCriteria_new env r (get_ref s pr (Name ''app''))) s
           = (Inl e, s')"
  shows "getTrackingURL env this t r s =
     (Inl (error InvalidInput ''Invalid input to the getTrackingURL method.'' e None), s') \<and>
     calls s' = calls s"
  using assms keeps_callsD[OF keeps_calls_construct_inputs assms(2)]
  by (simp add: getTrackingURL_def bindM_def getM_def catchM_def throwM_def)






lemma voidLabel_InvalidInput:
  "ext (Transaction_new env t) s = (Inl e, s') \<Longrightarrow>
   voidLabel env this t s =
     (Inl (error InvalidInput ''Invalid input to the voidLabel method.'' e None), s') \<and>
   calls s' = calls s"
  using keeps_callsD[OF keeps_calls_ext]
  by (simp add: voidLabel_def bindM_def catchM_def throwM_def)


lemma track_InvalidInput:
  "ext (Transaction_new env t) s = (Inl e, s') \<Longrightarrow>
   track env this t s =
     (Inl (error InvalidInput ''Invalid input to the track method.'' e None), s') \<and>
   calls s' = calls s"
  using keeps_callsD[OF keeps_calls_ext]
  by (simp add: track_def bindM_def catchM_def throwM_def)


lemma createManifest_InvalidInput:
  "ext (Transaction_new env t) s = (Inl e, s') \<Longrightarrow>
   createManifest env this t s =
     (Inl (error InvalidInput ''Invalid input to the createManifest method.'' e None), s') \<and>
   calls s' = calls s"
  using keeps_callsD[OF keeps_calls_ext]
  by (simp add: createManifest_def bindM_def catchM_def throwM_def)



subsection \<open>Invalid input\<close>

text \<open>
  C1.  For each of the eight wrappers: when the construction of the typed inputs (the
  \<open>Transaction\<close>, then the request entity where the wrapper takes one) throws \<open>e\<close>, the
  wrapper throws the SDK error of kind \<open>InvalidInput\<close> whose original error is \<open>e\<close>,
  in the state the failed construction left, and no call into user code has been made.
\<close>

theorem invalid_input_is_rejected:
  "(get_ref s this private_sym = Ref pr \<and>
    construct_inputs (Transaction_new env t) (PickupRequest_new env r (get_ref s pr (Name ''app''))) s
      = (Inl e, s') \<longrightarrow>
    requestPickup env this t r s =
      (Inl (error InvalidInput ''Invalid input to the requestPickup method.'' e None), s') \<and>
    calls s' = calls s) \<and>
   (get_ref s this private_sym = Ref pr \<and>
    construct_inputs (Transaction_new env t) (PickupCancellation_new env r (get_ref s pr (Name ''app''))) s
      = (Inl e, s') \<longrightarrow>
    cancelPickup env this t r s =
      (Inl (error InvalidInput ''Invalid input to the cancelPickup method.'' e None), s') \<and>
    calls s' = calls s) \<and>
   (get_ref s this private_sym = Ref pr \<and>
    construct_inputs (Transaction_new env t) (LabelSpec_new env r (get_ref s pr (Name ''app''))) s
      = (Inl e, s') \<longrightarrow>
    createLabel env this t r s =
      (Inl (error InvalidInput ''Invalid input to the createLabel method.'' e None), s') \<and>
    calls s' = calls s) \<and>
   (get_ref s this private_sym = Ref pr \<and>
    construct_inputs (Transaction_new env t) (RateCriteria_new env r (get_ref s pr (Name ''app''))) s
      = (Inl e, s') \<longrightarrow>
    getRates env this t r s =
      (Inl (error InvalidInput ''Invalid input to the getRates method.'' e None), s') \<and>
    calls s' = calls s) \<and>
   (get_ref s this private_sym = Ref pr \<and>
    construct_inputs (Transaction_new env t) (TrackingCriteria_new env r (get_ref s pr (Name ''app''))) s
      = (Inl e, s') \<longrightarrow>
    getTrackingURL env this t r s =
      (Inl (error InvalidInput ''Invalid input to the getTrackingURL method.'' e None), s') \<and>
    calls s' = calls s) \<and>
   (ext (Transaction_new env t) s = (Inl e, s') \<longrightarrow>
    voidLabel env this t s =
      (Inl (error InvalidInput ''Invalid input to the voidLabel method.'' e None), s') \<and>
    calls s' = calls s) \<and>
   (ext (Transaction_new env t) s = (Inl e, s') \<longrightarrow>
    track env this t s =
      (Inl (error InvalidInput ''Invalid input to the track method.'' e None), s') \<and>
    calls s' = calls s) \<and>
   (ext (Transaction_new env t) s = (Inl e, s') \<longrightarrow>
    createManifest env this t s =
      (Inl (error InvalidInput ''Invalid input to the createManifest method.'' e None), s') \<and>
    calls s' = calls s)"
proof (intro conjI impI)
  assume "get_ref s this private_sym = Ref pr \<and>
    construct_inputs (Transaction_new env t) (PickupRequest_new env r (get_ref s pr (Name ''app''))) s
      = (Inl e, s')"
  then have a: "get_ref s this private_sym = Ref pr"
    and b: "construct_inputs (Transaction_new env t) (PickupRequest_new env r (get_ref s pr (Name ''app''))) s
      = (Inl e, s')" by simp_all
  from requestPickup_InvalidInput[OF a b]
  show "requestPickup env this t r s =
      (Inl (error InvalidInput ''Invalid input to the requestPickup method.'' e None), s')"
    and "calls s' = calls s" by simp_all
next
  assume "get_ref s this private_sym = Ref pr \<and>
    construct_inputs (Transaction_new env t) (PickupCancellation_new env r (get_ref s pr (Name ''app''))) s
      = (Inl e, s')"
  then have a: "get_ref s this private_sym = Ref pr"
    and b: "construct_inputs (Transaction_new env t) (PickupCancellation_new env r (get_ref s pr (Name ''app''))) s
      = (Inl e, s')" by simp_all
  from cancelPickup_InvalidInput[OF a b]
  show "cancelPickup env this t r s =
      (Inl (error InvalidInput ''Invalid input to the cancelPickup method.'' e None), s')"
    and "calls s' = calls s" by simp_all
next
  assume "get_ref s this private_sym = Ref pr \<and>
    construct_inputs (Transaction_new env t) (LabelSpec_new env r (get_ref s pr (Name ''app''))) s
      = (Inl e, s')"
  then have a: "get_ref s this private_sym = Ref pr"
    and b: "construct_inputs (Transaction_new env t) (LabelSpec_new env r (get_ref s pr (Name ''app''))) s
      = (Inl e, s')" by simp_all
  from createLabel_InvalidInput[OF a b]
  show "createLabel env this t r s =
      (Inl (error InvalidInput ''Invalid input to the createLabel method.'' e None), s')"
    and "calls s' = calls s" by simp_all
next
  assume "get_ref s this private_sym = Ref pr \<and>
    construct_inputs (Transaction_new env t) (RateCriteria_new env r (get_ref s pr (Name ''app''))) s
      = (Inl e, s')"
  then have a: "get_ref s this private_sym = Ref pr"
    and b: "construct_inputs (Transaction_new env t) (RateCriteria_new env r (get_ref s pr (Name ''app''))) s
      = (Inl e, s')" by simp_all
  from getRates_InvalidInput[OF a b]
  show "getRates env this t r s =
      (Inl (error InvalidInput ''Invalid input to the getRates method.'' e None), s')"
    and "calls s' = calls s" by simp_all
next
  assume "get_ref s this private_sym = Ref pr \<and>
    construct_inputs (Transaction_new env t) (TrackingCriteria_new env r (get_ref s pr (Name ''app''))) s
      = (Inl e, s')"
  then have a: "get_ref s this private_sym = Ref pr"
    and b: "construct_inputs (Transaction_new env t) (TrackingCriteria_new env r (get_ref s pr (Name ''app''))) s
      = (Inl e, s')" by simp_all
  from getTrackingURL_InvalidInput[OF a b]
  show "getTrackingURL env this t r s =
      (Inl (error InvalidInput ''Invalid input to the getTrackingURL method.'' e None), s')"
    and "calls s' = calls s" by simp_all
next
  assume a: "ext (Transaction_new env t) s = (Inl e, s')"
  from voidLabel_InvalidInput[OF a]
  show "voidLabel env this t s =
      (Inl (error InvalidInput ''Invalid input to the voidLabel method.'' e None), s')"
    and "calls s' = calls s" by simp_all
next
  assume a: "ext (Transaction_new env t) s = (Inl e, s')"
  from track_InvalidInput[OF a]
  show "track env this t s =
      (Inl (error InvalidInput ''Invalid input to the track method.'' e None), s')"
    and "calls s' = calls s" by simp_all
next
  assume a: "ext (Transaction_new env t) s = (Inl e, s')"
  from createManifest_InvalidInput[OF a]
  show "createManifest env this t s =
      (Inl (error InvalidInput ''Invalid input to the createManifest method.'' e None), s')"
    and "calls s' = calls s" by simp_all
qed


lemma demo_private:
  "get_ref (demo_state f) 40 private_sym = Ref 41"
  "get_ref (demo_state f) 41 (Name ''app'') = Ref 42"
  "get_ref (demo_state f) 41 (Name ''requestPickup'') = Ref f"
  "get_ref (demo_state f) 41 (Name ''cancelPickup'') = Ref f"
  "get_ref (demo_state f) 41 (Name ''createLabel'') = Ref f"
  "get_ref (demo_state f) 41 (Name ''getRates'') = Ref f"
  "get_ref (demo_state f) 41 (Name ''getTrackingURL'') = Ref f"
  by (simp_all add: get_ref_def own_prop_def demo_state_def private_sym_def hidden_property_def
      object_literal_def data_property_def)

lemma demo_bad_transaction:
  "ext (Transaction_new demo_env Undefined) (demo_state f) =
     (Inl (Thrown (Str ''validation failed'')), demo_state f)"
  by (simp add: ext_def demo_env_def demo_new_def throwM_def)

lemma demo_bad_inputs:
  "construct_inputs (Transaction_new demo_env Undefined) c2 (demo_state f) =
     (Inl (Thrown (Str ''validation failed'')), demo_state f)"
  by (simp add: construct_inputs_def bindM_def demo_bad_transaction)

theorem invalid_input_is_rejected_witness:
  "requestPickup demo_env 40 Undefined (Ref 62) (demo_state 53) =
     (Inl (error InvalidInput ''Invalid input to the requestPickup method.''
        (Thrown (Str ''validation failed'')) None), demo_state 53) \<and>
   cancelPickup demo_env 40 Undefined (Ref 62) (demo_state 53) =
     (Inl (error InvalidInput ''Invalid input to the cancelPickup method.''
        (Thrown (Str ''validation failed'')) None), demo_state 53) \<and>
   createLabel demo_env 40 Undefined (Ref 62) (demo_state 53) =
     (Inl (error InvalidInput ''Invalid input to the createLabel method.''
        (Thrown (Str ''validation failed'')) None), demo_state 53) \<and>
   getRates demo_env 40 Undefined (Ref 62) (demo_state 53) =
     (Inl (error InvalidInput ''Invalid input to the getRates method.''
        (Thrown (Str ''validation failed'')) None), demo_state 53) \<and>
   getTrackingURL demo_env 40 Undefined (Ref 62) (demo_state 53) =
     (Inl (error InvalidInput ''Invalid input to the getTrackingURL method.''
        (Thrown (Str ''validation failed'')) None), demo_state 53) \<and>
   voidLabel demo_env 40 Undefined (demo_state 53) =
     (Inl (error InvalidInput ''Invalid input to the voidLabel method.''
        (Thrown (Str ''validation failed'')) None), demo_state 53) \<and>
   track demo_env 40 Undefined (demo_state 53) =
     (Inl (error InvalidInput ''Invalid input to the track method.''
        (Thrown (Str ''validation failed'')) None), demo_state 53) \<and>
   createManifest demo_env 40 Undefined (demo_state 53) =
     (Inl (error InvalidInput ''Invalid input to the createManifest method.''
        (Thrown (Str ''validation failed'')) None), demo_state 53) \<and>
   calls (demo_state 53) = []"
proof -
  note t = invalid_input_is_rejected[of "demo_state 53" 40 41 demo_env Undefined "Ref 62"
      "Thrown (Str ''validation failed'')" "demo_state 53"]
  have "calls (demo_state 53) = []" by (simp add: demo_state_def)
  then show ?thesis
    using t demo_private[of 53] demo_bad_inputs[of _ 53] demo_bad_transaction[of 53] by simp
qed


subsection \<open>Failure in user code\<close>



lemma demo_valid_inputs:
  "construct_inputs (Transaction_new demo_env (Ref 60)) (demo_new [] (Ref 62)) (demo_state f) =
     (Inr (100, 101), demo_inputs f)"
  by (simp add: construct_inputs_def bindM_def returnM_def ext_def demo_env_def demo_new_def
      allocM_def demo_inputs_def get_ref_def own_prop_def demo_state_def object_literal_def
      data_property_def fun_upd_twist)


lemma demo_ctors:
  "PickupRequest_new demo_env v a = demo_new [] v"
  "PickupCancellation_new demo_env v a = demo_new [] v"
  "LabelSpec_new demo_env v a = demo_new [] v"
  "RateCriteria_new demo_env v a = demo_new [] v"
  "TrackingCriteria_new demo_env v a = demo_new [] v"
  "apply_fn demo_env = demo_apply"
  by (simp_all add: demo_env_def)

lemma demo_inputs_facts:
  "kind (heap (demo_inputs 53) 53) = Function"
  "kind (heap (demo_inputs 52) 52) = Function"
  "get_ref (logged (demo_inputs f) f args (demo_inputs f)) 100 (Name ''id'') = Str ''tx-1''"
  "calls (demo_state f) = []"
  by (simp_all add: demo_inputs_def demo_state_def function_obj_def logged_def get_ref_def
      own_prop_def freeze_obj_def object_literal_def data_property_def frozen_prop_def)





subsection \<open>cancelPickup without a returned value\<close>

lemma model_on_default:
  "PickupCancellationConfirmation_model (Ref (next_ref s)) (with_default_confirmation s) =
     (Inr (Suc (next_ref s)),
      (with_default_confirmation s)\<lparr>heap := (heap (with_default_confirmation s))
         (Suc (next_ref s) := freeze_obj (object_literal
            [(Name ''successful'', Bool True), (Name ''cancellationID'', Undefined),
             (Name ''notes'', Undefined), (Name ''customData'', Undefined)])),
       next_ref := Suc (Suc (next_ref s))\<rparr>)"
  by (simp add: PickupCancellationConfirmation_model_def with_default_confirmation_def bindM_def
      thenM_def getM_def get_ref_def own_prop_def object_literal_def data_property_def allocM_def
      set_field_def returnM_def assignM_def add_property_def hideAndFreeze_def Object_entries_def
      is_symbol_def typeof_def Object_getOwnPropertySymbols_def Object_freeze_def freeze_obj_def
      frozen_prop_def)


lemma cancelPickup_confirm_default:
  "\<not> truthy v \<Longrightarrow>
   cancelPickup_confirm env v s =
     bindM (ext (PickupCancellationConfirmation_new env (Ref (next_ref s))))
       (\<lambda>result. returnM (Ref result)) (with_default_confirmation s)"
  by (simp add: cancelPickup_confirm_def bindM_def allocM_def returnM_def
      with_default_confirmation_def)

lemma cancelPickup_no_value:
  assumes "get_ref s this private_sym = Ref pr"
    and "construct_inputs (Transaction_new env t)
           (PickupCancellation_new env c (get_ref s pr (Name ''app''))) s = (Inr (tx, cn), s1)"
    and "get_ref s pr (Name ''cancelPickup'') = Ref fr" and "kind (heap s1 fr) = Function"
    and "apply_fn env fr [Ref tx, Ref cn] s1 = (oc, s2)"
    and "oc = Returns Undefined \<or> oc = Returns Null \<or> oc = Resolves Undefined \<or> oc = Resolves Null"
  shows "cancelPickup env this t c s =
     catchM (bindM (ext (PickupCancellationConfirmation_new env
                (Ref (next_ref (logged s1 fr [Ref tx, Ref cn] s2)))))
              (\<lambda>result. returnM (Ref result)))
       (app_error ''Error in cancelPickup method.'' tx)
       (with_default_confirmation (logged s1 fr [Ref tx, Ref cn] s2))"
proof -
  obtain v where v: "\<not> truthy v" "call_await env (Ref fr) [Ref tx, Ref cn] s1 =
      (Inr v, logged s1 fr [Ref tx, Ref cn] s2)"
    using assms(6) call_await_cases[OF assms(4,5)] by (auto simp: truthy_def)
  show ?thesis
    using assms(1,2,3) v cancelPickup_confirm_default[OF v(1)]
    by (simp add: cancelPickup_def bindM_def getM_def catchM_def)
qed

text \<open>
  C3.  A valid transaction and cancellation, and a user function that returns or resolves
  with undefined or null: the wrapper hands a newly allocated object whose only field is
  \<open>successful: true\<close> to the \<open>PickupCancellationConfirmation\<close> constructor and returns
  what it constructs; with the constructor as the spec describes it, that is a frozen
  entity whose \<open>successful\<close> is true and whose \<open>cancellationID\<close> is undefined.  The
  user function has been called once.
\<close>

theorem cancelPickup_defaults_to_successful:
  "get_ref s this private_sym = Ref pr \<and>
   construct_inputs (Transaction_new env t)
     (PickupCancellation_new env c (get_ref s pr (Name ''app''))) s = (Inr (tx, cn), s1) \<and>
   get_ref s pr (Name ''cancelPickup'') = Ref fr \<and> kind (heap s1 fr) = Function \<and>
   apply_fn env fr [Ref tx, Ref cn] s1 = (oc, s2) \<and>
   (oc = Returns Undefined \<or> oc = Returns Null \<or> oc = Resolves Undefined \<or> oc = Resolves Null)
   \<longrightarrow>
   (\<forall>r s3. ext (PickupCancellationConfirmation_new env
               (Ref (next_ref (logged s1 fr [Ref tx, Ref cn] s2))))
             (with_default_confirmation (logged s1 fr [Ref tx, Ref cn] s2)) = (Inr r, s3) \<longrightarrow>
      cancelPickup env this t c s = (Inr (Ref r), s3)) \<and>
   (PickupCancellationConfirmation_new env = PickupCancellationConfirmation_model \<longrightarrow>
      (\<exists>r s3. cancelPickup env this t c s = (Inr (Ref r), s3) \<and>
         get_ref s3 r (Name ''successful'') = Bool True \<and>
         get_ref s3 r (Name ''cancellationID'') = Undefined \<and>
         isFrozen s3 r \<and>
         calls s3 = calls s @ [(fr, [Ref tx, Ref cn])]))"
proof (intro impI, elim conjE)
  assume a: "get_ref s this private_sym = Ref pr"
    "construct_inputs (Transaction_new env t)
       (PickupCancellation_new env c (get_ref s pr (Name ''app''))) s = (Inr (tx, cn), s1)"
    "get_ref s pr (Name ''cancelPickup'') = Ref fr" "kind (heap s1 fr) = Function"
    "apply_fn env fr [Ref tx, Ref cn] s1 = (oc, s2)"
    "oc = Returns Undefined \<or> oc = Returns Null \<or> oc = Resolves Undefined \<or> oc = Resolves Null"
  define s2' where "s2' = logged s1 fr [Ref tx, Ref cn] s2"
  note w = cancelPickup_no_value[OF a, folded s2'_def]
  have general: "\<forall>r s3. ext (PickupCancellationConfirmation_new env (Ref (next_ref s2')))
             (with_default_confirmation s2') = (Inr r, s3) \<longrightarrow>
      cancelPickup env this t c s = (Inr (Ref r), s3)"
    by (simp add: w catchM_def bindM_def returnM_def)
  have calls: "calls s2' = calls s @ [(fr, [Ref tx, Ref cn])]"
    using keeps_callsD[OF keeps_calls_construct_inputs a(2)] by (simp add: s2'_def logged_def)
  have modelled: "\<exists>r s3. cancelPickup env this t c s = (Inr (Ref r), s3) \<and>
         get_ref s3 r (Name ''successful'') = Bool True \<and>
         get_ref s3 r (Name ''cancellationID'') = Undefined \<and>
         isFrozen s3 r \<and>
         calls s3 = calls s @ [(fr, [Ref tx, Ref cn])]"
    if m: "PickupCancellationConfirmation_new env = PickupCancellationConfirmation_model"
  proof -
    let ?r = "Suc (next_ref s2')"
    let ?s3 = "(with_default_confirmation s2')\<lparr>heap := (heap (with_default_confirmation s2'))
         (?r := freeze_obj (object_literal
            [(Name ''successful'', Bool True), (Name ''cancellationID'', Undefined),
             (Name ''notes'', Undefined), (Name ''customData'', Undefined)])),
       next_ref := Suc (Suc (next_ref s2'))\<rparr>"
    have e: "ext (PickupCancellationConfirmation_new env (Ref (next_ref s2')))
        (with_default_confirmation s2') = (Inr ?r, ?s3)"
      by (simp add: ext_def m model_on_default)
    have "cancelPickup env this t c s = (Inr (Ref ?r), ?s3)"
      using general e by blast
    moreover have "get_ref ?s3 ?r (Name ''successful'') = Bool True"
      "get_ref ?s3 ?r (Name ''cancellationID'') = Undefined"
      by (simp_all add: get_ref_def own_prop_def freeze_obj_def object_literal_def
          data_property_def frozen_prop_def)
    moreover have "isFrozen ?s3 ?r"
      by (simp add: isFrozen_def freeze_obj_def object_literal_def data_property_def
          frozen_prop_def)
    moreover have "calls ?s3 = calls s @ [(fr, [Ref tx, Ref cn])]"
      using calls by (simp add: with_default_confirmation_def)
    ultimately show ?thesis by blast
  qed
  show "(\<forall>r s3. ext (PickupCancellationConfirmation_new env
               (Ref (next_ref (logged s1 fr [Ref tx, Ref cn] s2))))
             (with_default_confirmation (logged s1 fr [Ref tx, Ref cn] s2)) = (Inr r, s3) \<longrightarrow>
      cancelPickup env this t c s = (Inr (Ref r), s3)) \<and>
   (PickupCancellationConfirmation_new env = PickupCancellationConfirmation_model \<longrightarrow>
      (\<exists>r s3. cancelPickup env this t c s = (Inr (Ref r), s3) \<and>
         get_ref s3 r (Name ''successful'') = Bool True \<and>
         get_ref s3 r (Name ''cancellationID'') = Undefined \<and>
         isFrozen s3 r \<and>
         calls s3 = calls s @ [(fr, [Ref tx, Ref cn])]))"
    using general modelled unfolding s2'_def by blast
qed

lemma demo_no_value:
  "demo_apply 54 args s = (Resolves Undefined, s)"
  "kind (heap (demo_inputs 54) 54) = Function"
  "PickupCancellationConfirmation_new demo_env = PickupCancellationConfirmation_model"
  by (simp_all add: demo_apply_def demo_inputs_def demo_state_def function_obj_def demo_env_def)

theorem cancelPickup_defaults_to_successful_witness:
  "\<exists>r s3. cancelPickup demo_env 40 (Ref 60) (Ref 62) (demo_state 54) = (Inr (Ref r), s3) \<and>
     get_ref s3 r (Name ''successful'') = Bool True \<and>
     get_ref s3 r (Name ''cancellationID'') = Undefined \<and>
     isFrozen s3 r \<and>
     calls s3 = [(54, [Ref 100, Ref 101])]"
  using cancelPickup_defaults_to_successful[where s = "demo_state 54" and this = 40 and pr = 41
      and env = demo_env and t = "Ref 60" and c = "Ref 62" and tx = 100 and cn = 101
      and ?s1.0 = "demo_inputs 54" and fr = 54 and oc = "Resolves Undefined"
      and ?s2.0 = "demo_inputs 54"]
    demo_private[of 54] demo_valid_inputs[of 54] demo_ctors demo_no_value
    demo_inputs_facts(4)[of 54]
  by simp


subsection \<open>requestPickup and the shipments of the confirmation\<close>

lemma lacks_get_ref: "lacks s c k \<Longrightarrow> get_ref s c k = Undefined"
  by (simp add: lacks_def get_ref_def split: option.splits)

lemma requestPickup_confirm_adds:
  assumes "lacks s c (Name ''shipments'')" and "extensible (heap s c)"
  shows "requestPickup_confirm env (Ref q) (Ref c) s =
     bindM (ext (PickupConfirmation_new env (Ref c))) (\<lambda>result. returnM (Ref result))
       (with_shipments s c (get_ref s q (Name ''shipments'')))"
  using assms lacks_get_ref[OF assms(1)]
  by (auto simp: requestPickup_confirm_def bindM_def getM_def truthy_def assignM_def
      add_property_def lacks_def with_shipments_def split: option.splits)

lemma requestPickup_confirm_refused:
  assumes "lacks s c (Name ''shipments'')" and "\<not> extensible (heap s c)"
  shows "requestPickup_confirm env (Ref q) (Ref c) s =
     (Inl (TypeError ''Cannot add property, object is not extensible''), s)"
  using assms lacks_get_ref[OF assms(1)]
  by (auto simp: requestPickup_confirm_def bindM_def getM_def truthy_def assignM_def
      add_property_def lacks_def split: option.splits)

lemma map_entry_same_value:
  "map_of ps k = Some p \<Longrightarrow> AList.map_entry k (\<lambda>p. p\<lparr>pvalue := pvalue p\<rparr>) ps = ps"
  by (induction ps) (auto split: if_splits)

lemma requestPickup_confirm_keeps:
  assumes "own_prop s c (Name ''shipments'') = Some p" and "truthy (pvalue p)" and "writable p"
  shows "requestPickup_confirm env request (Ref c) s =
     bindM (ext (PickupConfirmation_new env (Ref c))) (\<lambda>result. returnM (Ref result)) s"
proof -
  have "AList.map_entry (Name ''shipments'') (\<lambda>p'. p'\<lparr>pvalue := pvalue p\<rparr>) (props (heap s c))
      = props (heap s c)"
    using assms(1) by (intro map_entry_id[where p = p]) (simp_all add: own_prop_def)
  then show ?thesis
    using assms
    by (simp add: requestPickup_confirm_def bindM_def getM_def get_ref_def returnM_def assignM_def)
qed

lemma requestPickup_resolved:
  assumes "get_ref s this private_sym = Ref pr"
    and "construct_inputs (Transaction_new env t)
           (PickupRequest_new env r (get_ref s pr (Name ''app''))) s = (Inr (tx, rq), s1)"
    and "get_ref s pr (Name ''requestPickup'') = Ref fr" and "kind (heap s1 fr) = Function"
    and "apply_fn env fr [Ref tx, Ref rq] s1 = (oc, s2)"
    and "oc = Returns v \<or> oc = Resolves v"
  shows "requestPickup env this t r s =
     catchM (requestPickup_confirm env r v) (app_error ''Error in requestPickup method.'' tx)
       (logged s1 fr [Ref tx, Ref rq] s2)"
proof -
  have "call_await env (Ref fr) [Ref tx, Ref rq] s1 = (Inr v, logged s1 fr [Ref tx, Ref rq] s2)"
    using assms(6) call_await_cases[OF assms(4,5)] by auto
  then show ?thesis
    using assms(1,2,3) by (simp add: requestPickup_def bindM_def getM_def catchM_def)
qed

lemma requestPickup_shipments:
  assumes "get_ref s this private_sym = Ref pr"
    and "construct_inputs (Transaction_new env t)
           (PickupRequest_new env (Ref q) (get_ref s pr (Name ''app''))) s = (Inr (tx, rq), s1)"
    and "get_ref s pr (Name ''requestPickup'') = Ref fr" and "kind (heap s1 fr) = Function"
    and "apply_fn env fr [Ref tx, Ref rq] s1 = (oc, s2)"
    and "oc = Returns (Ref c) \<or> oc = Resolves (Ref c)"
    and "s2' = logged s1 fr [Ref tx, Ref rq] s2"
  shows "lacks s2' c (Name ''shipments'') \<and> extensible (heap s2' c) \<longrightarrow>
       requestPickup env this t (Ref q) s =
         construct_confirmation env tx c
           (with_shipments s2' c (get_ref s2' q (Name ''shipments'')))"
    and "lacks s2' c (Name ''shipments'') \<and> \<not> extensible (heap s2' c) \<longrightarrow>
       requestPickup env this t (Ref q) s =
         (Inl (error AppError ''Error in requestPickup method.''
            (TypeError ''Cannot add property, object is not extensible'')
            (Some (get_ref s2' tx (Name ''id'')))), s2')"
    and "\<forall>p. own_prop s2' c (Name ''shipments'') = Some p \<and> truthy (pvalue p) \<and> writable p \<longrightarrow>
       requestPickup env this t (Ref q) s = construct_confirmation env tx c s2'"
proof -
  note r = requestPickup_resolved[OF assms(1-6), folded assms(7)]
  show "lacks s2' c (Name ''shipments'') \<and> extensible (heap s2' c) \<longrightarrow>
       requestPickup env this t (Ref q) s =
         construct_confirmation env tx c
           (with_shipments s2' c (get_ref s2' q (Name ''shipments'')))"
    by (simp add: r catchM_def requestPickup_confirm_adds construct_confirmation_def)
  show "lacks s2' c (Name ''shipments'') \<and> \<not> extensible (heap s2' c) \<longrightarrow>
       requestPickup env this t (Ref q) s =
         (Inl (error AppError ''Error in requestPickup method.''
            (TypeError ''Cannot add property, object is not extensible'')
            (Some (get_ref s2' tx (Name ''id'')))), s2')"
    by (simp add: r catchM_def requestPickup_confirm_refused app_error_eq)
  show "\<forall>p. own_prop s2' c (Name ''shipments'') = Some p \<and> truthy (pvalue p) \<and> writable p \<longrightarrow>
       requestPickup env this t (Ref q) s = construct_confirmation env tx c s2'"
    by (auto simp: r catchM_def requestPickup_confirm_keeps construct_confirmation_def)
qed

text \<open>
  C9, as amended.  A valid transaction and request, and a user function that returns or
  resolves with the confirmation object \<open>c\<close>.  If \<open>c\<close> has no \<open>shipments\<close> field and
  is extensible, the wrapper adds to \<open>c\<close> itself, in the store, the field \<open>shipments\<close>
  holding the \<open>shipments\<close> value of the raw request POJO \<open>q\<close>, and then constructs the
  \<open>PickupConfirmation\<close> from \<open>c\<close>.  If \<open>c\<close> has no such field and is not extensible
  (a frozen object), the assignment throws: the wrapper raises \<open>AppError\<close> and \<open>c\<close> is
  as it was.  If \<open>c\<close> has a truthy, writable \<open>shipments\<close>, the store is unchanged when
  the \<open>PickupConfirmation\<close> is constructed.
\<close>

theorem requestPickup_defaults_shipments:
  "get_ref s this private_sym = Ref pr \<and>
   construct_inputs (Transaction_new env t)
     (PickupRequest_new env (Ref q) (get_ref s pr (Name ''app''))) s = (Inr (tx, rq), s1) \<and>
   get_ref s pr (Name ''requestPickup'') = Ref fr \<and> kind (heap s1 fr) = Function \<and>
   apply_fn env fr [Ref tx, Ref rq] s1 = (oc, s2) \<and>
   (oc = Returns (Ref c) \<or> oc = Resolves (Ref c)) \<and>
   s2' = logged s1 fr [Ref tx, Ref rq] s2
   \<longrightarrow>
   (lacks s2' c (Name ''shipments'') \<and> extensible (heap s2' c) \<longrightarrow>
      requestPickup env this t (Ref q) s =
        construct_confirmation env tx c
          (with_shipments s2' c (get_ref s2' q (Name ''shipments'')))) \<and>
   (lacks s2' c (Name ''shipments'') \<and> \<not> extensible (heap s2' c) \<longrightarrow>
      requestPickup env this t (Ref q) s =
        (Inl (error AppError ''Error in requestPickup method.''
           (TypeError ''Cannot add property, object is not extensible'')
           (Some (get_ref s2' tx (Name ''id'')))), s2')) \<and>
   (\<forall>p. own_prop s2' c (Name ''shipments'') = Some p \<and> truthy (pvalue p) \<and> writable p \<longrightarrow>
      requestPickup env this t (Ref q) s = construct_confirmation env tx c s2')"
proof (intro impI, elim conjE)
  assume a: "get_ref s this private_sym = Ref pr"
    "construct_inputs (Transaction_new env t)
       (PickupRequest_new env (Ref q) (get_ref s pr (Name ''app''))) s = (Inr (tx, rq), s1)"
    "get_ref s pr (Name ''requestPickup'') = Ref fr" "kind (heap s1 fr) = Function"
    "apply_fn env fr [Ref tx, Ref rq] s1 = (oc, s2)"
    "oc = Returns (Ref c) \<or> oc = Resolves (Ref c)"
    "s2' = logged s1 fr [Ref tx, Ref rq] s2"
  from requestPickup_shipments[OF a]
  show "(lacks s2' c (Name ''shipments'') \<and> extensible (heap s2' c) \<longrightarrow>
      requestPickup env this t (Ref q) s =
        construct_confirmation env tx c
          (with_shipments s2' c (get_ref s2' q (Name ''shipments'')))) \<and>
   (lacks s2' c (Name ''shipments'') \<and> \<not> extensible (heap s2' c) \<longrightarrow>
      requestPickup env this t (Ref q) s =
        (Inl (error AppError ''Error in requestPickup method.''
           (TypeError ''Cannot add property, object is not extensible'')
           (Some (get_ref s2' tx (Name ''id'')))), s2')) \<and>
   (\<forall>p. own_prop s2' c (Name ''shipments'') = Some p \<and> truthy (pvalue p) \<and> writable p \<longrightarrow>
      requestPickup env this t (Ref q) s = construct_confirmation env tx c s2')"
    by blast
qed


lemma demo_confirmations:
  "demo_apply 50 args s = (Resolves (Ref 70), s)"
  "demo_apply 51 args s = (Resolves (Ref 71), s)"
  "demo_apply 52 args s = (Returns (Ref 72), s)"
  "kind (heap (demo_inputs 50) 50) = Function"
  "kind (heap (demo_inputs 51) 51) = Function"
  by (simp_all add: demo_apply_def demo_inputs_def demo_state_def function_obj_def)

lemma demo_logged_heap:
  "heap (logged (demo_inputs f) f args (demo_inputs f)) 70 =
     freeze_obj (object_literal [(Name ''confirmationID'', Str ''c-70'')])"
  "heap (logged (demo_inputs f) f args (demo_inputs f)) 71 =
     object_literal [(Name ''confirmationID'', Str ''c-71'')]"
  "heap (logged (demo_inputs f) f args (demo_inputs f)) 72 =
     object_literal [(Name ''confirmationID'', Str ''c-72''), (Name ''shipments'', Ref 73)]"
  "heap (logged (demo_inputs f) f args (demo_inputs f)) 62 =
     object_literal [(Name ''shipments'', Ref 63)]"
  "next_ref (logged (demo_inputs f) f args (demo_inputs f)) = 102"
  by (simp_all add: logged_def demo_inputs_def demo_state_def)

lemma demo_inputs_heap:
  "heap (demo_inputs f) 70 = freeze_obj (object_literal [(Name ''confirmationID'', Str ''c-70'')])"
  by (simp add: demo_inputs_def demo_state_def)

lemma demo_lacks:
  "lacks (logged (demo_inputs f) f args (demo_inputs f)) 70 (Name ''shipments'')"
  "\<not> extensible (heap (logged (demo_inputs f) f args (demo_inputs f)) 70)"
  "lacks (logged (demo_inputs f) f args (demo_inputs f)) 71 (Name ''shipments'')"
  "extensible (heap (logged (demo_inputs f) f args (demo_inputs f)) 71)"
  "own_prop (logged (demo_inputs f) f args (demo_inputs f)) 72 (Name ''shipments'') =
     Some (data_property (Ref 73))"
  "lacks (demo_inputs f) 70 (Name ''shipments'')"
  "get_ref (logged (demo_inputs f) f args (demo_inputs f)) 62 (Name ''shipments'') = Ref 63"
  by (simp_all add: lacks_def own_prop_def get_ref_def demo_logged_heap demo_inputs_heap
      freeze_obj_def object_literal_def data_property_def)

lemma demo_construct_confirmation:
  "next_ref s = 102 \<Longrightarrow>
   construct_confirmation demo_env tx c s =
     (Inr (Ref 102), s\<lparr>heap := (heap s)(102 := freeze_obj (object_literal [])),
        next_ref := 103\<rparr>)"
  by (simp add: construct_confirmation_def catchM_def bindM_def ext_def demo_env_def demo_new_def
      allocM_def returnM_def)

theorem requestPickup_frozen_confirmation_counterexample:
  "demo_apply 50 [Ref 100, Ref 101] (demo_inputs 50) = (Resolves (Ref 70), demo_inputs 50) \<and>
   lacks (demo_inputs 50) 70 (Name ''shipments'') \<and>
   requestPickup demo_env 40 (Ref 60) (Ref 62) (demo_state 50) =
     (Inl (error AppError ''Error in requestPickup method.''
        (TypeError ''Cannot add property, object is not extensible'') (Some (Str ''tx-1''))),
      logged (demo_inputs 50) 50 [Ref 100, Ref 101] (demo_inputs 50)) \<and>
   heap (logged (demo_inputs 50) 50 [Ref 100, Ref 101] (demo_inputs 50)) 70 =
     heap (demo_inputs 50) 70 \<and>
   lacks (logged (demo_inputs 50) 50 [Ref 100, Ref 101] (demo_inputs 50)) 70 (Name ''shipments'')"
proof -
  have "lacks (demo_inputs 50) 70 (Name ''shipments'')"
    by (rule demo_lacks)
  moreover have "requestPickup demo_env 40 (Ref 60) (Ref 62) (demo_state 50) =
     (Inl (error AppError ''Error in requestPickup method.''
        (TypeError ''Cannot add property, object is not extensible'') (Some (Str ''tx-1''))),
      logged (demo_inputs 50) 50 [Ref 100, Ref 101] (demo_inputs 50))"
    using requestPickup_shipments(2)[where s = "demo_state 50" and this = 40 and pr = 41
      and env = demo_env and t = "Ref 60" and q = 62 and tx = 100 and rq = 101
      and ?s1.0 = "demo_inputs 50" and fr = 50 and oc = "Resolves (Ref 70)"
      and ?s2.0 = "demo_inputs 50" and c = 70, OF _ _ _ _ _ _ refl]
      demo_private[of 50] demo_valid_inputs[of 50] demo_ctors demo_confirmations demo_lacks
      demo_inputs_facts(3)
    by simp
  ultimately show ?thesis
    by (simp add: demo_confirmations demo_lacks demo_logged_heap demo_inputs_heap)
qed

theorem requestPickup_defaults_shipments_witness:
  "requestPickup demo_env 40 (Ref 60) (Ref 62) (demo_state 51) =
     construct_confirmation demo_env 100 71
       (with_shipments (logged (demo_inputs 51) 51 [Ref 100, Ref 101] (demo_inputs 51)) 71
          (Ref 63)) \<and>
   fst (requestPickup demo_env 40 (Ref 60) (Ref 62) (demo_state 51)) = Inr (Ref 102) \<and>
   own_prop (snd (requestPickup demo_env 40 (Ref 60) (Ref 62) (demo_state 51))) 71
     (Name ''shipments'') = Some (data_property (Ref 63)) \<and>
   fst (requestPickup demo_env 40 (Ref 60) (Ref 62) (demo_state 50)) =
     Inl (error AppError ''Error in requestPickup method.''
        (TypeError ''Cannot add property, object is not extensible'') (Some (Str ''tx-1''))) \<and>
   fst (requestPickup demo_env 40 (Ref 60) (Ref 62) (demo_state 52)) = Inr (Ref 102) \<and>
   own_prop (snd (requestPickup demo_env 40 (Ref 60) (Ref 62) (demo_state 52))) 72
     (Name ''shipments'') = Some (data_property (Ref 73))"
proof -
  let ?L = "\<lambda>f. logged (demo_inputs f) f [Ref 100, Ref 101] (demo_inputs f)"
  note a = requestPickup_defaults_shipments[where s = "demo_state 51" and this = 40 and pr = 41
      and env = demo_env and t = "Ref 60" and q = 62 and tx = 100 and rq = 101
      and ?s1.0 = "demo_inputs 51" and fr = 51 and oc = "Resolves (Ref 71)"
      and ?s2.0 = "demo_inputs 51" and c = 71 and s2' = "?L 51"]
  note b = requestPickup_defaults_shipments[where s = "demo_state 50" and this = 40 and pr = 41
      and env = demo_env and t = "Ref 60" and q = 62 and tx = 100 and rq = 101
      and ?s1.0 = "demo_inputs 50" and fr = 50 and oc = "Resolves (Ref 70)"
      and ?s2.0 = "demo_inputs 50" and c = 70 and s2' = "?L 50"]
  note c = requestPickup_defaults_shipments[where s = "demo_state 52" and this = 40 and pr = 41
      and env = demo_env and t = "Ref 60" and q = 62 and tx = 100 and rq = 101
      and ?s1.0 = "demo_inputs 52" and fr = 52 and oc = "Returns (Ref 72)"
      and ?s2.0 = "demo_inputs 52" and c = 72 and s2' = "?L 52"]
  have A: "requestPickup demo_env 40 (Ref 60) (Ref 62) (demo_state 51) =
     construct_confirmation demo_env 100 71 (with_shipments (?L 51) 71 (Ref 63))"
    using a demo_private[of 51] demo_valid_inputs[of 51] demo_ctors demo_confirmations demo_lacks
    by simp
  have B: "requestPickup demo_env 40 (Ref 60) (Ref 62) (demo_state 50) =
     (Inl (error AppError ''Error in requestPickup method.''
        (TypeError ''Cannot add property, object is not extensible'') (Some (Str ''tx-1''))),
      ?L 50)"
    using b demo_private[of 50] demo_valid_inputs[of 50] demo_ctors demo_confirmations demo_lacks
      demo_inputs_facts(3)
    by simp
  have C: "requestPickup demo_env 40 (Ref 60) (Ref 62) (demo_state 52) =
     construct_confirmation demo_env 100 72 (?L 52)"
    using c demo_private[of 52] demo_valid_inputs[of 52] demo_ctors demo_confirmations demo_lacks
      demo_inputs_facts(2)
    by (simp add: truthy_def data_property_def)
  have n: "next_ref (with_shipments (?L 51) 71 (Ref 63)) = 102"
    by (simp add: with_shipments_def demo_logged_heap)
  show ?thesis
    unfolding A B C demo_construct_confirmation[OF n]
      demo_construct_confirmation[OF demo_logged_heap(5)]
    by (simp add: own_prop_def with_shipments_def demo_logged_heap object_literal_def)
qed

section \<open>Properties of the entities as values\<close>

subsection \<open>DeliveryService.serviceArea\<close>

lemma serviceArea_loop_Worldwide:
  "\<exists>p \<in> set ps. serviceArea p = Worldwide \<Longrightarrow> serviceArea_loop ps maxArea = Worldwide"
  by (induction ps arbitrary: maxArea) auto

lemma not_wide_not_domestic:
  "serviceArea p \<noteq> Worldwide \<Longrightarrow> serviceArea p \<noteq> Domestic \<Longrightarrow> serviceArea p = Regional"
  by (cases "serviceArea p") simp_all

lemma serviceArea_loop_none:
  "\<forall>p \<in> set ps. serviceArea p = Regional \<Longrightarrow> serviceArea_loop ps maxArea = maxArea"
  by (induction ps) auto

lemma serviceArea_loop_Domestic:
  "\<not> (\<exists>p \<in> set ps. serviceArea p = Worldwide) \<Longrightarrow> \<exists>p \<in> set ps. serviceArea p = Domestic \<Longrightarrow>
   serviceArea_loop ps maxArea = Domestic"
proof (induction ps arbitrary: maxArea)
  case Nil
  then show ?case by simp
next
  case (Cons p ps)
  show ?case
  proof (cases "serviceArea p = Domestic")
    case True
    have "serviceArea_loop ps Domestic = Domestic"
    proof (cases "\<exists>q \<in> set ps. serviceArea q = Domestic")
      case True
      then show ?thesis using Cons.IH Cons.prems(1) by simp
    next
      case False
      then have "\<forall>q \<in> set ps. serviceArea q = Regional"
        using Cons.prems(1) not_wide_not_domestic by auto
      then show ?thesis by (rule serviceArea_loop_none)
    qed
    then show ?thesis using True by simp
  next
    case False
    then show ?thesis using Cons by auto
  qed
qed

text \<open>
  C10.  The \<open>serviceArea\<close> getter of a delivery service gives \<open>Worldwide\<close> if one of
  its packaging entries has service area \<open>Worldwide\<close>, otherwise \<open>Domestic\<close> if one
  has \<open>Domestic\<close>, otherwise \<open>Regional\<close>.  It is a function of the packaging list:
  two services with the same packaging have the same service area, and the getter returns
  a value only.
\<close>

theorem serviceArea_is_broadest:
  "DeliveryService_serviceArea this =
     (if \<exists>p \<in> set (packaging this). serviceArea p = Worldwide then Worldwide
      else if \<exists>p \<in> set (packaging this). serviceArea p = Domestic then Domestic
      else Regional) \<and>
   (packaging other = packaging this \<longrightarrow>
      DeliveryService_serviceArea other = DeliveryService_serviceArea this)"
proof -
  have loop: "serviceArea_loop ps Regional =
     (if \<exists>p \<in> set ps. serviceArea p = Worldwide then Worldwide
      else if \<exists>p \<in> set ps. serviceArea p = Domestic then Domestic
      else Regional)" for ps
  proof (cases "\<exists>p \<in> set ps. serviceArea p = Worldwide")
    case True
    then show ?thesis by (simp add: serviceArea_loop_Worldwide)
  next
    case nw: False
    show ?thesis
    proof (cases "\<exists>p \<in> set ps. serviceArea p = Domestic")
      case True
      then show ?thesis using nw by (simp add: serviceArea_loop_Domestic)
    next
      case False
      then have "\<forall>p \<in> set ps. serviceArea p = Regional"
        using nw not_wide_not_domestic by auto
      then show ?thesis using nw False by (simp add: serviceArea_loop_none)
    qed
  qed
  show ?thesis
    unfolding DeliveryService_serviceArea_def by (simp add: loop)
qed

lemma demo_service_packaging:
  "packaging (demo_service ps) = ps"
  "packaging ((demo_service ps)\<lparr>hasTracking := False\<rparr>) = ps"
  by (simp_all add: demo_service_def)

theorem serviceArea_is_broadest_witness:
  "DeliveryService_serviceArea (demo_service
      [\<lparr>serviceArea = Regional, isConsolidator = False\<rparr>,
       \<lparr>serviceArea = Domestic, isConsolidator = False\<rparr>,
       \<lparr>serviceArea = Regional, isConsolidator = True\<rparr>]) = Domestic \<and>
   DeliveryService_serviceArea (demo_service
      [\<lparr>serviceArea = Domestic, isConsolidator = False\<rparr>,
       \<lparr>serviceArea = Worldwide, isConsolidator = False\<rparr>,
       \<lparr>serviceArea = Regional, isConsolidator = False\<rparr>]) = Worldwide \<and>
   DeliveryService_serviceArea (demo_service
      [\<lparr>serviceArea = Regional, isConsolidator = False\<rparr>]) = Regional \<and>
   DeliveryService_serviceArea ((demo_service
      [\<lparr>serviceArea = Domestic, isConsolidator = False\<rparr>])\<lparr>hasTracking := False\<rparr>) =
   DeliveryService_serviceArea (demo_service
      [\<lparr>serviceArea = Domestic, isConsolidator = False\<rparr>])"
  using serviceArea_is_broadest[of "demo_service
      [\<lparr>serviceArea = Regional, isConsolidator = False\<rparr>,
       \<lparr>serviceArea = Domestic, isConsolidator = False\<rparr>,
       \<lparr>serviceArea = Regional, isConsolidator = True\<rparr>]" "demo_service []"]
    serviceArea_is_broadest[of "demo_service
      [\<lparr>serviceArea = Domestic, isConsolidator = False\<rparr>,
       \<lparr>serviceArea = Worldwide, isConsolidator = False\<rparr>,
       \<lparr>serviceArea = Regional, isConsolidator = False\<rparr>]" "demo_service []"]
    serviceArea_is_broadest[of "demo_service
      [\<lparr>serviceArea = Regional, isConsolidator = False\<rparr>]" "demo_service []"]
    serviceArea_is_broadest[of "demo_service
      [\<lparr>serviceArea = Domestic, isConsolidator = False\<rparr>]"
      "(demo_service [\<lparr>serviceArea = Domestic, isConsolidator = False\<rparr>])\<lparr>hasTracking := False\<rparr>"]
  by (simp add: demo_service_packaging)


subsection \<open>Carrier: serialize and construct again\<close>

lemma mapM_roundtrip:
  "\<forall>x \<in> set xs. \<forall>w. fst (f (g x) w) = Inr x \<Longrightarrow> fst (mapM f (map g xs) w) = Inr xs"
proof (induction xs arbitrary: w)
  case Nil
  show ?case by (simp add: returnM_def)
next
  case (Cons x xs)
  obtain w1 where 1: "f (g x) w = (Inr x, w1)"
    using Cons.prems by (metis list.set_intros(1) prod.collapse)
  obtain w2 where 2: "mapM f (map g xs) w1 = (Inr xs, w2)"
    using Cons.IH[of w1] Cons.prems by (metis list.set_intros(2) prod.collapse)
  show ?case by (simp add: bindM_def returnM_def 1 2)
qed

lemma bindM_InrE:
  assumes "bindM m f s = (Inr y, s')"
  obtains x s1 where "m s = (Inr x, s1)" and "f x s1 = (Inr y, s')"
  using assms by (auto simp: bindM_def split: prod.splits sum.splits)

lemma new_Carrier_fields:
  assumes "new_Carrier ops pojo app w = (Inr c, w1)"
  shows "carrier_id c = pojo_id pojo" and "carrier_name c = pojo_name pojo"
    and "carrier_logo c = pojo_logo pojo" and "private_app c = app"
    and "private_methods c = pojo_methods pojo"
    and "undefined_methods c = unimplemented (private_methods c)"
proof -
  from assms obtain u ds ps l w' where
    c: "thenM (v_references_add ops app
          \<lparr>carrier_id = pojo_id pojo, carrier_name = pojo_name pojo,
           carrier_description =
             (case pojo_description pojo of Some d \<Rightarrow> (if d \<noteq> [] then d else []) | None \<Rightarrow> []),
           carrier_websiteURL = u, carrier_logo = pojo_logo pojo,
           carrier_deliveryServices = ds, carrier_pickupServices = ps, private_app = app,
           private_localization = l, private_methods = pojo_methods pojo,
           undefined_methods = unimplemented (pojo_methods pojo)\<rparr>)
        (returnM \<lparr>carrier_id = pojo_id pojo, carrier_name = pojo_name pojo,
           carrier_description =
             (case pojo_description pojo of Some d \<Rightarrow> (if d \<noteq> [] then d else []) | None \<Rightarrow> []),
           carrier_websiteURL = u, carrier_logo = pojo_logo pojo,
           carrier_deliveryServices = ds, carrier_pickupServices = ps, private_app = app,
           private_localization = l, private_methods = pojo_methods pojo,
           undefined_methods = unimplemented (pojo_methods pojo)\<rparr>) w' = (Inr c, w1)"
    unfolding new_Carrier_def Let_def by (elim bindM_InrE) blast
  then have "c = \<lparr>carrier_id = pojo_id pojo, carrier_name = pojo_name pojo,
           carrier_description =
             (case pojo_description pojo of Some d \<Rightarrow> (if d \<noteq> [] then d else []) | None \<Rightarrow> []),
           carrier_websiteURL = u, carrier_logo = pojo_logo pojo,
           carrier_deliveryServices = ds, carrier_pickupServices = ps, private_app = app,
           private_localization = l, private_methods = pojo_methods pojo,
           undefined_methods = unimplemented (pojo_methods pojo)\<rparr>"
    unfolding thenM_def by (elim bindM_InrE) (simp add: returnM_def)
  then show "carrier_id c = pojo_id pojo" and "carrier_name c = pojo_name pojo"
    and "carrier_logo c = pojo_logo pojo" and "private_app c = app"
    and "private_methods c = pojo_methods pojo"
    and "undefined_methods c = unimplemented (private_methods c)"
    by simp_all
qed

text \<open>
  C5.  Let \<open>c\<close> be the carrier constructed from a configuration object.  Suppose the
  classes outside this file round-trip on the parts of \<open>c\<close>: a URL constructed from the
  URL of \<open>c\<close> is that URL, a delivery or pickup service constructed from the serialized
  service is that service, a localization constructed from its serialized form is that
  localization, and the app registers the carrier.  Then constructing a carrier from
  \<open>c.toJSON()\<close> (no locale) succeeds with a carrier equal to \<open>c\<close> in every field.
\<close>

theorem carrier_roundtrip:
  assumes "new_Carrier ops pojo app w = (Inr c, w1)"
    and "\<forall>w. fst (v_URL_new ops (UrlObject (carrier_websiteURL c)) w) = Inr (carrier_websiteURL c)"
    and "\<forall>d \<in> set (carrier_deliveryServices c). \<forall>w.
           fst (v_DeliveryService_new ops (v_DeliveryService_toJSON ops d None) app w) = Inr d"
    and "\<forall>p \<in> set (carrier_pickupServices c). \<forall>w.
           fst (v_PickupService_new ops (v_PickupService_toJSON ops p None) app w) = Inr p"
    and "\<forall>w. fst (v_Localization_new ops (v_Localization_toJSON ops (private_localization c)) w)
           = Inr (private_localization c)"
    and "\<forall>w. fst (v_references_add ops app c w) = Inr ()"
  shows "fst (new_Carrier ops (Carrier_toJSON ops c None) app w2) = Inr c"
proof -
  note f = new_Carrier_fields[OF assms(1)]
  obtain wa where a: "v_URL_new ops (UrlObject (carrier_websiteURL c)) w2
      = (Inr (carrier_websiteURL c), wa)"
    using assms(2) by (metis prod.collapse)
  obtain wb where b: "mapM (\<lambda>svc. v_DeliveryService_new ops svc app)
      (map (\<lambda>o'. v_DeliveryService_toJSON ops o' None) (carrier_deliveryServices c)) wa
      = (Inr (carrier_deliveryServices c), wb)"
    using mapM_roundtrip[where f = "\<lambda>svc. v_DeliveryService_new ops svc app"
        and g = "\<lambda>o'. v_DeliveryService_toJSON ops o' None", OF assms(3)]
    by (metis prod.collapse)
  obtain wc where c: "mapM (\<lambda>svc. v_PickupService_new ops svc app)
      (map (\<lambda>o'. v_PickupService_toJSON ops o' None) (carrier_pickupServices c)) wb
      = (Inr (carrier_pickupServices c), wc)"
    using mapM_roundtrip[where f = "\<lambda>svc. v_PickupService_new ops svc app"
        and g = "\<lambda>o'. v_PickupService_toJSON ops o' None", OF assms(4)]
    by (metis prod.collapse)
  obtain wd where d: "v_Localization_new ops (v_Localization_toJSON ops (private_localization c)) wc
      = (Inr (private_localization c), wd)"
    using assms(5) by (metis prod.collapse)
  have rebuilt: "\<lparr>carrier_id = carrier_id c, carrier_name = carrier_name c,
      carrier_description = carrier_description c, carrier_websiteURL = carrier_websiteURL c,
      carrier_logo = carrier_logo c, carrier_deliveryServices = carrier_deliveryServices c,
      carrier_pickupServices = carrier_pickupServices c, private_app = app,
      private_localization = private_localization c, private_methods = private_methods c,
      undefined_methods = unimplemented (private_methods c)\<rparr> = c"
    using f(4,6) by simp
  obtain we where e: "v_references_add ops app c wd = (Inr (), we)"
    using assms(6) by (metis prod.collapse)
  have desc: "(if carrier_description c \<noteq> [] then carrier_description c else [])
      = carrier_description c"
    by simp
  show ?thesis
    by (simp add: new_Carrier_def Carrier_toJSON_def bindM_def thenM_def returnM_def Let_def
        a b c d desc rebuilt e split del: if_split)
qed

lemma demo_new_Carrier: "new_Carrier demo_ops demo_pojo ''app'' 0 = (Inr demo_carrier, 1)"
  by (simp add: new_Carrier_def demo_ops_def demo_pojo_def demo_carrier_def bindM_def thenM_def
      returnM_def unimplemented_def demo_methods_def)

lemma demo_carrier_parts:
  "carrier_websiteURL demo_carrier = ''https://fast.example/''"
  "carrier_deliveryServices demo_carrier = [''Ground'', ''Air'']"
  "carrier_pickupServices demo_carrier = []"
  "private_localization demo_carrier = []"
  by (simp_all add: demo_carrier_def)

theorem carrier_roundtrip_witness:
  "new_Carrier demo_ops demo_pojo ''app'' 0 = (Inr demo_carrier, 1) \<and>
   fst (new_Carrier demo_ops (Carrier_toJSON demo_ops demo_carrier None) ''app'' 1)
     = Inr demo_carrier"
proof -
  have "fst (new_Carrier demo_ops (Carrier_toJSON demo_ops demo_carrier None) ''app'' 1)
     = Inr demo_carrier"
    by (rule carrier_roundtrip[OF demo_new_Carrier])
       (simp_all add: demo_carrier_parts, simp_all add: demo_ops_def returnM_def)
  then show ?thesis using demo_new_Carrier by simp
qed

end
